theory Spec2Isabelle
  imports Main "HOL-Library.Word" "HOL-Library.Multiset"
begin

section \<open>Shared data model\<close>

text \<open>
  Identifiers are strings, as in the Go sources (\<open>proto.NodeID\<close> and
  \<open>proto.DatabaseID\<close> are string types). Keys and signatures are opaque values
  produced by collaborators outside the verified core.
\<close>

type_synonym NodeID = string
type_synonym DatabaseID = string
type_synonym PublicKey = nat
type_synonym PrivateKey = nat
type_synonym Signature = nat
type_synonym u64 = "64 word"
type_synonym u32 = "32 word"
type_synonym byte = "8 word"

text \<open>
  Errors are values. \<open>ExtError\<close> stands for an error produced by a collaborator
  (RPC transport, key store, signer, replicated store); \<open>Wrapf\<close> is
  \<open>errors.Wrapf\<close>, which keeps its cause; \<open>Panic\<close> is a Go run-time panic.
\<close>

datatype error =
    ErrNoSuchDatabase
  | ErrDatabaseAllocation
  | ErrMetricNotCollected
  | ErrInvalidContainerType
  | ErrInvalidTransactionType
  | ExtError string
  | Wrapf error string
  | Panic string

fun cause :: "error \<Rightarrow> error" where
  "cause (Wrapf e m) = cause e"
| "cause e = e"

datatype ServerRole = Unknown | Leader | Follower | Miner | Client

record Node =
  Node_ID :: NodeID
  Node_Role :: ServerRole
  Node_PublicKey :: PublicKey

record Server =
  Server_Role :: ServerRole
  Server_ID :: NodeID
  Server_PubKey :: PublicKey

text \<open>
  \<open>kayak.Peers\<close>. \<open>Servers\<close> is a slice of pointers: \<open>None\<close> is the nil pointer
  that \<open>make([]*kayak.Server, n)\<close> fills the slice with.
\<close>

record Peers =
  Peers_Term :: u64
  Peers_Leader :: "Server option"
  Peers_Servers :: "Server option list"
  Peers_PubKey :: PublicKey
  Peers_Signature :: "Signature option"

record ResourceMeta =
  RM_Node :: u32
  RM_Memory :: u64

record Block =
  Block_Version :: u32
  Block_Producer :: NodeID
  Block_Timestamp :: nat
  Block_Signature :: "Signature option"

record ServiceInstance =
  SI_DatabaseID :: DatabaseID
  SI_Peers :: "Peers option"
  SI_ResourceMeta :: ResourceMeta
  SI_GenesisBlock :: "Block option"

definition zeroResourceMeta :: ResourceMeta where
  "zeroResourceMeta = \<lparr>RM_Node = 0, RM_Memory = 0\<rparr>"

datatype UpdateType = CreateDB | UpdateDB | DropDB

record UpdateService =
  US_Op :: UpdateType
  US_Instance :: ServiceInstance
  US_Signee :: "PublicKey option"
  US_Signature :: "Signature option"

section \<open>Deployment fan-out (batchSendSvcReq, batchSendSingleSvcReq)\<close>

text \<open>
  \<open>batchSendSingleSvcReq\<close> starts one goroutine per node; each sends the result of
  \<open>CallNode\<close> into a channel buffered for \<open>len(nodes)\<close> values. After
  \<open>wg.Wait()\<close> the channel is closed and exactly one value is received from it:
  \<open>err = <-errCh\<close>. The channel is a FIFO, so that value is the result of the
  goroutine that finished first; on a closed empty channel the receive yields nil.

  The order in which the goroutines finish is not fixed by the program. It is an explicit
  parameter here: \<open>sched req nodes\<close> is the order of completion, a permutation of
  \<open>nodes\<close>. \<open>callNode n req\<close> is the outcome of
  \<open>CallNode(n, "DBS.Deploy", req, &resp)\<close>; the request pointer may be nil.
  The second component of the result is the list of calls made, in completion order.
\<close>

type_synonym call = "NodeID \<times> UpdateService option"

record net =
  callNode :: "NodeID \<Rightarrow> UpdateService option \<Rightarrow> error option"
  sched :: "UpdateService option \<Rightarrow> NodeID list \<Rightarrow> NodeID list"

definition batchSendSingleSvcReq ::
  "net \<Rightarrow> UpdateService option \<Rightarrow> NodeID list \<Rightarrow> error option \<times> call list" where
  "batchSendSingleSvcReq nw req nodes =
     (let done = sched nw req nodes;
          errCh = map (\<lambda>n. callNode nw n req) done
      in (case errCh of [] \<Rightarrow> None | e # _ \<Rightarrow> e, map (\<lambda>n. (n, req)) done))"

definition batchSendSvcReq ::
  "net \<Rightarrow> UpdateService option \<Rightarrow> UpdateService option \<Rightarrow> NodeID list
     \<Rightarrow> error option \<times> call list" where
  "batchSendSvcReq nw req rollbackReq nodes =
     (case batchSendSingleSvcReq nw req nodes of
        (None, calls) \<Rightarrow> (None, calls)
      | (Some e, calls) \<Rightarrow>
          (Some e, calls @ snd (batchSendSingleSvcReq nw rollbackReq nodes)))"


section \<open>Service map\<close>

text \<open>
  Modelled from the spec: \<open>DBServiceMap\<close> (its \<open>Get\<close>, \<open>Set\<close> and \<open>Delete\<close>) is
  not part of the sources at hand. The map is an in-memory index
  \<open>DatabaseID \<rightharpoonup> ServiceInstance\<close>; \<open>Get\<close> serves from memory and reports
  \<open>ErrNoSuchDatabase\<close> on a miss; \<open>Set\<close> and \<open>Delete\<close> commit through the
  external store and update the index only after the commit succeeded.
\<close>

type_synonym ServiceMap = "DatabaseID \<rightharpoonup> ServiceInstance"

record store =
  commitSet :: "ServiceInstance \<Rightarrow> error option"
  commitDelete :: "DatabaseID \<Rightarrow> error option"

definition ServiceMap_Get :: "ServiceMap \<Rightarrow> DatabaseID \<Rightarrow> error + ServiceInstance" where
  "ServiceMap_Get sm dbID =
     (case sm dbID of None \<Rightarrow> Inl ErrNoSuchDatabase | Some inst \<Rightarrow> Inr inst)"

definition ServiceMap_Set ::
  "store \<Rightarrow> ServiceMap \<Rightarrow> ServiceInstance \<Rightarrow> error option \<times> ServiceMap" where
  "ServiceMap_Set st sm inst =
     (case commitSet st inst of
        Some e \<Rightarrow> (Some e, sm)
      | None \<Rightarrow> (None, sm(SI_DatabaseID inst \<mapsto> inst)))"

definition ServiceMap_Delete ::
  "store \<Rightarrow> ServiceMap \<Rightarrow> DatabaseID \<Rightarrow> error option \<times> ServiceMap" where
  "ServiceMap_Delete st sm dbID =
     (case commitDelete st dbID of
        Some e \<Rightarrow> (Some e, sm)
      | None \<Rightarrow> (None, sm(dbID := None)))"

section \<open>Key store and signing\<close>

text \<open>
  The key store (package \<open>kms\<close>) and the signing methods of the request, peers, block
  and response types are collaborators: each is a parameter giving the outcome of the call.
  Signing a request or a block returns an error and leaves the signed value behind;
  signing a peers structure yields its signature.
\<close>

record kms =
  GetLocalPublicKey :: "error + PublicKey"
  GetLocalPrivateKey :: "error + PrivateKey"
  GetLocalNodeID :: "error + NodeID"

record signer =
  svcSign :: "PrivateKey \<Rightarrow> UpdateService \<Rightarrow> error option \<times> UpdateService"
  peersSign :: "PrivateKey \<Rightarrow> Peers \<Rightarrow> error + Signature"
  PackAndSignBlock :: "PrivateKey \<Rightarrow> Block \<Rightarrow> error option \<times> Block"
  respSign :: "PrivateKey \<Rightarrow> ServiceInstance \<Rightarrow> error option"

definition peersToNodes :: "Peers option \<Rightarrow> error + NodeID list" where
  "peersToNodes peers =
     (case peers of
        None \<Rightarrow> Inr []
      | Some p \<Rightarrow>
          if None \<in> set (Peers_Servers p) then Inl (Panic ''nil pointer dereference'')
          else Inr (map (\<lambda>s. Server_ID (the s)) (Peers_Servers p)))"

section \<open>DropDatabase\<close>

text \<open>
  The request carries the database ID and, in \<open>DDR_Verify\<close>, the outcome of
  \<open>req.Verify()\<close>.
  The result is the returned error, the service map afterwards and the RPC calls made.
  Line 187 of the source reads \<open>if dropDBSvcReq.Sign(privateKey); err != nil\<close>: the
  call to \<open>Sign\<close> is the init statement of the \<open>if\<close>, its result is dropped, and the
  condition tests the \<open>err\<close> left by \<open>GetLocalPrivateKey\<close>, which is nil there.
\<close>

record DropDatabaseRequest =
  DDR_DatabaseID :: DatabaseID
  DDR_Verify :: "error option"

definition newDropDBSvcReq :: "DropDatabaseRequest \<Rightarrow> PublicKey \<Rightarrow> UpdateService" where
  "newDropDBSvcReq req signee =
     \<lparr>US_Op = DropDB,
      US_Instance = \<lparr>SI_DatabaseID = DDR_DatabaseID req, SI_Peers = None,
                      SI_ResourceMeta = zeroResourceMeta, SI_GenesisBlock = None\<rparr>,
      US_Signee = Some signee, US_Signature = None\<rparr>"

definition DropDatabase ::
  "kms \<Rightarrow> signer \<Rightarrow> net \<Rightarrow> store \<Rightarrow> ServiceMap \<Rightarrow> DropDatabaseRequest
     \<Rightarrow> error option \<times> ServiceMap \<times> call list" where
  "DropDatabase k sg nw st sm req =
     (case DDR_Verify req of
        Some e \<Rightarrow> (Some e, sm, [])
      | None \<Rightarrow>
     (case ServiceMap_Get sm (DDR_DatabaseID req) of
        Inl e \<Rightarrow> (Some e, sm, [])
      | Inr instanceMeta \<Rightarrow>
     (case GetLocalPublicKey k of
        Inl e \<Rightarrow> (Some e, sm, [])
      | Inr signee \<Rightarrow>
     (case GetLocalPrivateKey k of
        Inl e \<Rightarrow> (Some e, sm, [])
      | Inr privateKey \<Rightarrow>
     (let dropDBSvcReq = snd (svcSign sg privateKey (newDropDBSvcReq req signee));
          err = (None :: error option)
      in if err \<noteq> None then (err, sm, [])
         else
     (case peersToNodes (SI_Peers instanceMeta) of
        Inl p \<Rightarrow> (Some p, sm, [])
      | Inr nodes \<Rightarrow>
     (case batchSendSvcReq nw (Some dropDBSvcReq) None nodes of
        (Some e, calls) \<Rightarrow> (Some e, sm, calls)
      | (None, calls) \<Rightarrow>
     (case ServiceMap_Delete st sm (DDR_DatabaseID req) of
        (err', sm') \<Rightarrow> (err', sm', calls)))))))))"


section \<open>Node metrics (getMetric)\<close>

text \<open>
  A metric family (\<open>dto.MetricFamily\<close>) has a type and a slice of samples. The
  generated getters are nil-safe: an unset gauge or counter reads as 0. The value read is
  \<open>uint64(x)\<close> of a float64 sample; the model stores the converted value. A metric
  map (\<open>map[string]*dto.MetricFamily\<close>) may hold a nil pointer under a key.
\<close>

datatype MetricType = COUNTER | GAUGE | SUMMARY | UNTYPED | HISTOGRAM

record Metric =
  Metric_Gauge :: "u64 option"
  Metric_Counter :: "u64 option"

record MetricFamily =
  MF_Type :: MetricType
  MF_Metric :: "Metric list"

type_synonym MetricMap = "string \<rightharpoonup> MetricFamily option"

definition MetricKeyFreeMemory :: "string list" where
  "MetricKeyFreeMemory = [''node_memory_free_bytes_total'', ''node_memory_MemFree_bytes'']"

definition GetValue :: "u64 option \<Rightarrow> u64" where
  "GetValue v = (case v of None \<Rightarrow> 0 | Some x \<Rightarrow> x)"

fun getMetric :: "MetricMap \<Rightarrow> string list \<Rightarrow> error + u64" where
  "getMetric metric [] = Inl ErrMetricNotCollected"
| "getMetric metric (key # keys) =
     (case metric key of
        None \<Rightarrow> getMetric metric keys
      | Some None \<Rightarrow> getMetric metric keys
      | Some (Some rawMetric) \<Rightarrow>
          (case MF_Type rawMetric of
             GAUGE \<Rightarrow>
               (case MF_Metric rawMetric of
                  [] \<Rightarrow> Inl (Panic ''index out of range'')
                | m # _ \<Rightarrow> Inr (GetValue (Metric_Gauge m)))
           | COUNTER \<Rightarrow>
               (case MF_Metric rawMetric of
                  [] \<Rightarrow> Inl (Panic ''index out of range'')
                | m # _ \<Rightarrow> Inr (GetValue (Metric_Counter m)))
           | _ \<Rightarrow> getMetric metric keys))"

section \<open>Database allocator (allocateNodes, buildPeers)\<close>

record allocatedNode =
  AN_NodeID :: NodeID
  AN_MemoryMetric :: u64

text \<open>
  The service object with the collaborators the allocator reads:
  \<^item> \<open>AllocationRounds\<close> is a Go \<open>int\<close> (64 bits); the loop
    \<open>for i := 0; i != s.AllocationRounds; i++\<close> runs \<open>unat\<close> of it many times;
  \<^item> \<open>GetNeighborsEx key n roles\<close> is the ring lookup (its error result is
    overwritten before it is read, so only the node list is kept);
  \<^item> \<open>GetMetrics ids\<close> is the metric records found for \<open>ids\<close>, a Go map, given
    as the list of its entries in the order the \<open>range\<close> loop visits them;
  \<^item> \<open>GetBPs\<close> is \<open>route.GetBPs()\<close>;
  \<^item> \<open>sortSlice less xs\<close> is \<open>sort.Slice\<close>, which is not stable.
\<close>

record DBService =
  AllocationRounds :: "64 word"
  includeBPNodesForAllocation :: bool
  GetNeighborsEx :: "string \<Rightarrow> int \<Rightarrow> ServerRole list \<Rightarrow> Node list"
  GetMetrics :: "NodeID list \<Rightarrow> (NodeID \<times> MetricMap) list"
  GetBPs :: "NodeID list"
  sortSlice :: "(allocatedNode \<Rightarrow> allocatedNode \<Rightarrow> bool) \<Rightarrow> allocatedNode list
                  \<Rightarrow> allocatedNode list"

fun isPanic :: "error \<Rightarrow> bool" where
  "isPanic (Panic m) = True"
| "isPanic e = False"

text \<open>
  The loop over the metric records (lines 353 to 379): \<open>allocated\<close> and
  \<open>excludeNodes\<close> are threaded through. A panic inside \<open>getMetric\<close> ends the call.
\<close>

fun checkMetrics ::
  "u64 \<Rightarrow> (NodeID \<times> MetricMap) list \<Rightarrow> allocatedNode list \<Rightarrow> NodeID set
     \<Rightarrow> error + (allocatedNode list \<times> NodeID set)" where
  "checkMetrics memory [] allocated excludeNodes = Inr (allocated, excludeNodes)"
| "checkMetrics memory ((nodeID, nodeMetric) # metrics) allocated excludeNodes =
     (case getMetric nodeMetric MetricKeyFreeMemory of
        Inl e \<Rightarrow>
          if isPanic e then Inl e
          else checkMetrics memory metrics allocated (insert nodeID excludeNodes)
      | Inr metricValue \<Rightarrow>
          if memory < metricValue
          then checkMetrics memory metrics
                 (allocated @ [\<lparr>AN_NodeID = nodeID, AN_MemoryMetric = metricValue\<rparr>])
                 excludeNodes
          else checkMetrics memory metrics allocated (insert nodeID excludeNodes))"

text \<open>
  \<open>buildPeers\<close>: the servers slice has \<open>len(allocated)\<close> nil entries; entry
  \<open>idx\<close> is set for the \<open>idx\<close>-th node of \<open>nodes\<close> (the ring's answer, in the
  ring's order) whose ID is allocated. Writing past the end and reading a nil entry panic.
\<close>

definition newFollower :: "Node \<Rightarrow> Server" where
  "newFollower node =
     \<lparr>Server_Role = Follower, Server_ID = Node_ID node, Server_PubKey = Node_PublicKey node\<rparr>"

fun setServers :: "Server option list \<Rightarrow> nat \<Rightarrow> Node list \<Rightarrow> error + Server option list" where
  "setServers servers idx [] = Inr servers"
| "setServers servers idx (node # allocatedNodes) =
     (if idx < length servers
      then setServers (servers[idx := Some (newFollower node)]) (Suc idx) allocatedNodes
      else Inl (Panic ''index out of range''))"

definition buildPeers ::
  "kms \<Rightarrow> signer \<Rightarrow> u64 \<Rightarrow> Node list \<Rightarrow> NodeID list \<Rightarrow> error + Peers" where
  "buildPeers k sg term nodes allocated =
     (case GetLocalPublicKey k of
        Inl e \<Rightarrow> Inl e
      | Inr pubKey \<Rightarrow>
     (case GetLocalPrivateKey k of
        Inl e \<Rightarrow> Inl e
      | Inr privKey \<Rightarrow>
     (let allocatedNodes = filter (\<lambda>node. Node_ID node \<in> set allocated) nodes
      in case setServers (replicate (length allocated) None) 0 allocatedNodes of
           Inl e \<Rightarrow> Inl e
         | Inr [] \<Rightarrow> Inl (Panic ''index out of range'')
         | Inr (None # rest) \<Rightarrow> Inl (Panic ''nil pointer dereference'')
         | Inr (Some s0 # rest) \<Rightarrow>
             (let leader = s0\<lparr>Server_Role := Leader\<rparr>;
                  peers = \<lparr>Peers_Term = term, Peers_Leader = Some leader,
                           Peers_Servers = Some leader # rest, Peers_PubKey = pubKey,
                           Peers_Signature = None\<rparr>
              in case peersSign sg privKey peers of
                   Inl e \<Rightarrow> Inl e
                 | Inr sig \<Rightarrow> Inr (peers\<lparr>Peers_Signature := Some sig\<rparr>)))))"

text \<open>
  Lines 381 to 394: sort the accepted nodes by metric, greatest first, keep the first
  \<open>n\<close> and list their IDs.
\<close>

definition nodeAllocated :: "DBService \<Rightarrow> nat \<Rightarrow> allocatedNode list \<Rightarrow> NodeID list" where
  "nodeAllocated s n allocated =
     map AN_NodeID
       (take n (sortSlice s (\<lambda>a b. AN_MemoryMetric b < AN_MemoryMetric a) allocated))"

text \<open>
  The allocation rounds. \<open>curRange\<close> is a Go \<open>int\<close>; the rounds left are counted
  down. The \<open>continue\<close> of line 345 goes to the next round without reaching
  \<open>curRange += int(resourceMeta.Node)\<close> at line 400.

  The second component of the result is a log with one entry per round, in order: the
  range the ring was asked for, the ring's answer, the exclusion set the round started
  with, the candidates (\<open>nodeIDs\<close>), the nodes accepted by the metric check
  (\<open>allocated\<close>, before the sort) and the exclusion set the round ended with. A round
  that leaves before the metric check, or panics in it, accepts nothing and leaves the
  exclusion set as it was.
\<close>

record roundLog =
  RL_range :: int
  RL_nodes :: "Node list"
  RL_before :: "NodeID set"
  RL_candidates :: "NodeID list"
  RL_accepted :: "allocatedNode list"
  RL_after :: "NodeID set"

definition rolesFilter :: "DBService \<Rightarrow> ServerRole list" where
  "rolesFilter s =
     [Miner] @ (if includeBPNodesForAllocation s then [Leader, Follower] else [])"

fun allocRounds ::
  "DBService \<Rightarrow> kms \<Rightarrow> signer \<Rightarrow> u64 \<Rightarrow> DatabaseID \<Rightarrow> ResourceMeta \<Rightarrow> nat \<Rightarrow> 64 word
     \<Rightarrow> NodeID set \<Rightarrow> (error + Peers) \<times> roundLog list" where
  "allocRounds s k sg lastTerm dbID resourceMeta 0 curRange excludeNodes =
     (Inl ErrDatabaseAllocation, [])"
| "allocRounds s k sg lastTerm dbID resourceMeta (Suc left) curRange excludeNodes =
     (let nodes = GetNeighborsEx s dbID (sint curRange) (rolesFilter s);
          nodeIDs = map Node_ID (filter (\<lambda>node. Node_ID node \<notin> excludeNodes) nodes);
          entry = (\<lambda>allocated excludeNodes'.
            \<lparr>RL_range = sint curRange, RL_nodes = nodes, RL_before = excludeNodes,
             RL_candidates = nodeIDs, RL_accepted = allocated, RL_after = excludeNodes'\<rparr>);
          further = (\<lambda>e r. (fst r, e # snd r))
      in if length nodeIDs < unat (RM_Node resourceMeta)
         then further (entry [] excludeNodes)
                (allocRounds s k sg lastTerm dbID resourceMeta left curRange excludeNodes)
         else
           (case checkMetrics (RM_Memory resourceMeta) (GetMetrics s nodeIDs) [] excludeNodes of
              Inl e \<Rightarrow> (Inl e, [entry [] excludeNodes])
            | Inr (allocated, excludeNodes') \<Rightarrow>
                if unat (RM_Node resourceMeta) \<le> length allocated
                then
                  (buildPeers k sg (lastTerm + 1) nodes
                     (nodeAllocated s (unat (RM_Node resourceMeta)) allocated),
                   [entry allocated excludeNodes'])
                else further (entry allocated excludeNodes')
                       (allocRounds s k sg lastTerm dbID resourceMeta left
                          (curRange + ucast (RM_Node resourceMeta)) excludeNodes')))"

text \<open>
  The exclusion set the first round starts with (lines 307 to 312): the block producers,
  unless they may host databases.
\<close>

definition seedExcluded :: "DBService \<Rightarrow> NodeID set" where
  "seedExcluded s = (if includeBPNodesForAllocation s then {} else set (GetBPs s))"

definition allocateNodesLog ::
  "DBService \<Rightarrow> kms \<Rightarrow> signer \<Rightarrow> u64 \<Rightarrow> DatabaseID \<Rightarrow> ResourceMeta
     \<Rightarrow> (error + Peers) \<times> roundLog list" where
  "allocateNodesLog s k sg lastTerm dbID resourceMeta =
     (if RM_Node resourceMeta \<le> 0 then (Inl ErrDatabaseAllocation, [])
      else allocRounds s k sg lastTerm dbID resourceMeta (unat (AllocationRounds s))
             (ucast (RM_Node resourceMeta)) (seedExcluded s))"

text \<open>\<open>allocateNodes\<close> with the ranges of the log only.\<close>

definition allocateNodes ::
  "DBService \<Rightarrow> kms \<Rightarrow> signer \<Rightarrow> u64 \<Rightarrow> DatabaseID \<Rightarrow> ResourceMeta
     \<Rightarrow> (error + Peers) \<times> int list" where
  "allocateNodes s k sg lastTerm dbID resourceMeta =
     (case allocateNodesLog s k sg lastTerm dbID resourceMeta of
        (result, rounds) \<Rightarrow> (result, map RL_range rounds))"

text \<open>
  What the metric check is to do with a list of records, in the words of the amended
  claim C3: the accepted nodes are those whose free memory is read and is greater than the
  requested memory, each with its value and in the order of the records; the nodes to
  exclude are those whose free memory cannot be read or is at most the requested memory.
\<close>

definition acceptedOf :: "u64 \<Rightarrow> (NodeID \<times> MetricMap) list \<Rightarrow> allocatedNode list" where
  "acceptedOf memory metrics =
     concat (map (\<lambda>(nodeID, nodeMetric).
       case getMetric nodeMetric MetricKeyFreeMemory of
         Inl e \<Rightarrow> []
       | Inr v \<Rightarrow> if memory < v then [\<lparr>AN_NodeID = nodeID, AN_MemoryMetric = v\<rparr>] else [])
       metrics)"

definition excludedOf :: "u64 \<Rightarrow> (NodeID \<times> MetricMap) list \<Rightarrow> NodeID set" where
  "excludedOf memory metrics =
     set (concat (map (\<lambda>(nodeID, nodeMetric).
       case getMetric nodeMetric MetricKeyFreeMemory of
         Inl e \<Rightarrow> [nodeID]
       | Inr v \<Rightarrow> if v \<le> memory then [nodeID] else [])
       metrics))"

definition panics :: "(NodeID \<times> MetricMap) list \<Rightarrow> bool" where
  "panics metrics =
     list_ex (\<lambda>(nodeID, nodeMetric).
       case getMetric nodeMetric MetricKeyFreeMemory of Inl e \<Rightarrow> isPanic e | Inr v \<Rightarrow> False)
       metrics"


section \<open>Database ID generation (generateDatabaseID)\<close>

text \<open>
  Modelled from the spec: the proof-of-work miner (\<open>cpuminer.ComputeBlockNonce\<close>), the
  \<open>Uint256\<close> nonce and the hash type are not part of the sources at hand. The nonce is a
  256-bit little-endian integer with \<open>Inc\<close>; the hash is computed over
  \<open>data \<parallel> nonce_bytes\<close> by the domain hash function, here the parameter \<open>H\<close>;
  a candidate is accepted when the leading \<open>difficulty\<close> bits of the hash are zero; the
  database ID is the hex of the accepted hash. The search has no bound of its own: where
  no nonce is accepted it does not return, which is the value \<open>None\<close>.
\<close>

type_synonym Uint256 = "256 word"

definition Uint256_Bytes :: "Uint256 \<Rightarrow> byte list" where
  "Uint256_Bytes n = map (\<lambda>i. ucast (drop_bit (8 * i) n)) [0..<32]"

definition leadingZerosByte :: "byte \<Rightarrow> nat" where
  "leadingZerosByte b = length (takeWhile (\<lambda>i. \<not> bit b i) (rev [0..<8]))"

fun leadingZeroBits :: "byte list \<Rightarrow> nat" where
  "leadingZeroBits [] = 0"
| "leadingZeroBits (b # bs) =
     (if b = 0 then 8 + leadingZeroBits bs else leadingZerosByte b)"

definition hexDigit :: "nat \<Rightarrow> char" where
  "hexDigit d = (''0123456789abcdef'') ! (d mod 16)"

definition hashString :: "byte list \<Rightarrow> string" where
  "hashString h = concat (map (\<lambda>b. [hexDigit (unat b div 16), hexDigit (unat b mod 16)]) h)"

partial_function (option) ComputeBlockNonce ::
  "(byte list \<Rightarrow> byte list) \<Rightarrow> byte list \<Rightarrow> Uint256 \<Rightarrow> nat \<Rightarrow> (Uint256 \<times> byte list) option"
  where
  "ComputeBlockNonce H data i difficulty =
     (let currentHash = H (data @ Uint256_Bytes i)
      in if difficulty \<le> leadingZeroBits currentHash then Some (i, currentHash)
         else ComputeBlockNonce H data (i + 1) difficulty)"

text \<open>
  The generator's loop (lines 268 to 294): mine from \<open>startNonce\<close> at difficulty 4, take
  the hex of the hash as the candidate ID, return it when the service map reports
  \<open>ErrNoSuchDatabase\<close>, and otherwise mine again from the nonce after the one found.
  The returned error is always nil, so the result is the ID; \<open>None\<close> is a loop that does
  not return.
\<close>

partial_function (option) generateDatabaseID_from ::
  "(byte list \<Rightarrow> byte list) \<Rightarrow> ServiceMap \<Rightarrow> byte list \<Rightarrow> Uint256 \<Rightarrow> DatabaseID option"
  where
  "generateDatabaseID_from H sm reqNodeID startNonce =
     (case ComputeBlockNonce H reqNodeID startNonce 4 of
        None \<Rightarrow> None
      | Some (nonce, h) \<Rightarrow>
          (let dbID = hashString h
           in if ServiceMap_Get sm dbID = Inl ErrNoSuchDatabase then Some dbID
              else generateDatabaseID_from H sm reqNodeID (nonce + 1)))"

definition generateDatabaseID ::
  "(byte list \<Rightarrow> byte list) \<Rightarrow> ServiceMap \<Rightarrow> byte list \<Rightarrow> DatabaseID option" where
  "generateDatabaseID H sm reqNodeID = generateDatabaseID_from H sm reqNodeID 0"

section \<open>CreateDatabase\<close>

record CreateDatabaseRequest =
  CDR_ResourceMeta :: ResourceMeta
  CDR_NodeID :: "byte list"
  CDR_Verify :: "error option"

definition generateGenesisBlock ::
  "kms \<Rightarrow> signer \<Rightarrow> nat \<Rightarrow> DatabaseID \<Rightarrow> ResourceMeta \<Rightarrow> error + Block" where
  "generateGenesisBlock k sg now dbID resourceMeta =
     (case GetLocalPrivateKey k of
        Inl e \<Rightarrow> Inl e
      | Inr privKey \<Rightarrow>
     (case GetLocalNodeID k of
        Inl e \<Rightarrow> Inl e
      | Inr nodeID \<Rightarrow>
     (case PackAndSignBlock sg privKey
             \<lparr>Block_Version = 0x01000000, Block_Producer = nodeID, Block_Timestamp = now,
              Block_Signature = None\<rparr> of
        (Some e, b) \<Rightarrow> Inl e
      | (None, b) \<Rightarrow> Inr b)))"

text \<open>
  The result of \<open>CreateDatabase\<close> is \<open>None\<close> when the ID generator does not return,
  and otherwise the returned error, the instance written to the response (if any), the
  service map afterwards and the RPC calls made. \<open>H\<close> is the miner's hash function and
  \<open>now\<close> the clock reading of the genesis block.
\<close>

record world =
  W_service :: DBService
  W_kms :: kms
  W_signer :: signer
  W_net :: net
  W_store :: store
  W_hash :: "byte list \<Rightarrow> byte list"
  W_now :: nat

definition CreateDatabase ::
  "world \<Rightarrow> ServiceMap \<Rightarrow> CreateDatabaseRequest
     \<Rightarrow> (error option \<times> ServiceInstance option \<times> ServiceMap \<times> call list) option" where
  "CreateDatabase w sm req =
     (case CDR_Verify req of
        Some e \<Rightarrow> Some (Some e, None, sm, [])
      | None \<Rightarrow>
     (case generateDatabaseID (W_hash w) sm (CDR_NodeID req) of
        None \<Rightarrow> None
      | Some dbID \<Rightarrow>
     (case fst (allocateNodes (W_service w) (W_kms w) (W_signer w) 0 dbID (CDR_ResourceMeta req)) of
        Inl e \<Rightarrow> Some (Some e, None, sm, [])
      | Inr peers \<Rightarrow>
     (case generateGenesisBlock (W_kms w) (W_signer w) (W_now w) dbID (CDR_ResourceMeta req) of
        Inl e \<Rightarrow> Some (Some e, None, sm, [])
      | Inr genesisBlock \<Rightarrow>
     (case GetLocalPrivateKey (W_kms w) of
        Inl e \<Rightarrow> Some (Some e, None, sm, [])
      | Inr privateKey \<Rightarrow>
     (case svcSign (W_signer w) privateKey
             \<lparr>US_Op = CreateDB,
              US_Instance = \<lparr>SI_DatabaseID = dbID, SI_Peers = Some peers,
                              SI_ResourceMeta = zeroResourceMeta, SI_GenesisBlock = Some genesisBlock\<rparr>,
              US_Signee = None, US_Signature = None\<rparr> of
        (Some e, initSvcReq) \<Rightarrow> Some (Some e, None, sm, [])
      | (None, initSvcReq) \<Rightarrow>
     (case svcSign (W_signer w) privateKey
             \<lparr>US_Op = DropDB,
              US_Instance = \<lparr>SI_DatabaseID = dbID, SI_Peers = None,
                              SI_ResourceMeta = zeroResourceMeta, SI_GenesisBlock = None\<rparr>,
              US_Signee = None, US_Signature = None\<rparr> of
        (Some e, rollbackReq) \<Rightarrow> Some (Some e, None, sm, [])
      | (None, rollbackReq) \<Rightarrow>
     (case peersToNodes (Some peers) of
        Inl p \<Rightarrow> Some (Some p, None, sm, [])
      | Inr nodes \<Rightarrow>
     (case batchSendSvcReq (W_net w) (Some initSvcReq) (Some rollbackReq) nodes of
        (Some e, calls) \<Rightarrow> Some (Some e, None, sm, calls)
      | (None, calls) \<Rightarrow>
     (let instanceMeta = \<lparr>SI_DatabaseID = dbID, SI_Peers = Some peers,
                           SI_ResourceMeta = CDR_ResourceMeta req,
                           SI_GenesisBlock = Some genesisBlock\<rparr>
      in case ServiceMap_Set (W_store w) sm instanceMeta of
           (Some e, sm') \<Rightarrow> Some (Some e, None, sm', calls)
         | (None, sm') \<Rightarrow>
             Some (respSign (W_signer w) privateKey instanceMeta, Some instanceMeta, sm',
                   calls)))))))))))"


section \<open>Transaction envelope decoding (CodecDecodeSelf, NewTransaction)\<close>

text \<open>
  The decoder works on the next msgpack value of the stream, given here as a tree. The
  driver calls are those of the \<open>codec\<close> library: \<open>ContainerType\<close> tells an array
  from everything else, \<open>TryDecodeAsNil\<close> succeeds on nil, \<open>DecodeUint64\<close> reads an
  unsigned integer (or a non-negative signed one) and fails on any other value,
  \<open>UintV v 32\<close> fails when \<open>v\<close> does not fit 32 bits, \<open>CheckBreak\<close> is always false
  for msgpack. A panic raised while decoding is what the decoder reports as its error.
  \<open>DecFallback\<close> (decoding the body into the transaction) and the handle's
  \<open>ErrorIfNoField\<close> option are parameters.
\<close>

datatype msgpack =
    MNil
  | MBool bool
  | MUint nat
  | MInt int
  | MStr string
  | MBin "byte list"
  | MArray "msgpack list"
  | MMap "(msgpack \<times> msgpack) list"

type_synonym TransactionType = "32 word"

text \<open>
  A registered \<open>reflect.Type\<close>: whether it implements \<open>Transaction\<close>, whether it is
  the wrapper's own type, and the fresh zero-valued instance \<open>reflect.New\<close> makes of it
  (a pointer to a zero value for a pointer type, the zero value otherwise).
\<close>

record 'tx rtype =
  RT_Implements :: bool
  RT_IsWrapper :: bool
  RT_Zero :: 'tx

type_synonym 'tx txTypeMapping = "TransactionType \<rightharpoonup> 'tx rtype"

definition NewTransaction :: "'tx txTypeMapping \<Rightarrow> TransactionType \<Rightarrow> error + 'tx" where
  "NewTransaction reg t =
     (case reg t of
        None \<Rightarrow> Inl (Wrapf ErrInvalidTransactionType ''transaction not registered'')
      | Some rt \<Rightarrow>
          if \<not> RT_Implements rt \<or> RT_IsWrapper rt
          then Inl (Wrapf ErrInvalidTransactionType ''invalid transaction registered'')
          else Inr (RT_Zero rt))"

definition DecodeUint64 :: "msgpack \<Rightarrow> error + nat" where
  "DecodeUint64 v =
     (case v of
        MUint n \<Rightarrow> Inr n
      | MInt i \<Rightarrow> if 0 \<le> i then Inr (nat i) else Inl (ExtError ''codec: negative value'')
      | _ \<Rightarrow> Inl (ExtError ''codec: not an unsigned integer''))"

definition UintV :: "nat \<Rightarrow> nat \<Rightarrow> error + nat" where
  "UintV v bitsize = (if v < 2 ^ bitsize then Inr v else Inl (ExtError ''codec: overflow''))"

record 'tx codec =
  DecFallback :: "'tx option \<Rightarrow> msgpack \<Rightarrow> error + 'tx option"
  ErrorIfNoField :: bool

fun decodeElems ::
  "'tx txTypeMapping \<Rightarrow> 'tx codec \<Rightarrow> nat \<Rightarrow> msgpack list \<Rightarrow> 'tx option
     \<Rightarrow> error + 'tx option" where
  "decodeElems reg cd i [] tx = Inr tx"
| "decodeElems reg cd i (x # xs) tx =
     (if i = 0 then
        (if x = MNil then Inl ErrInvalidTransactionType
         else
           (case DecodeUint64 x of
              Inl e \<Rightarrow> Inl e
            | Inr v \<Rightarrow>
           (case UintV v 32 of
              Inl e \<Rightarrow> Inl e
            | Inr t \<Rightarrow>
           (case NewTransaction reg (of_nat t) of
              Inl e \<Rightarrow> Inl e
            | Inr tx' \<Rightarrow> decodeElems reg cd (Suc i) xs (Some tx')))))
      else if i = 1 then
        (if x \<noteq> MNil then
           (case DecFallback cd tx x of
              Inl e \<Rightarrow> Inl e
            | Inr tx' \<Rightarrow> decodeElems reg cd (Suc i) xs tx')
         else decodeElems reg cd (Suc i) xs tx)
      else
        (if ErrorIfNoField cd then Inl (ExtError ''codec: no matching struct field'')
         else decodeElems reg cd (Suc i) xs tx))"

definition CodecDecodeSelf ::
  "'tx txTypeMapping \<Rightarrow> 'tx codec \<Rightarrow> msgpack \<Rightarrow> error + 'tx option" where
  "CodecDecodeSelf reg cd v =
     (case v of
        MArray elems \<Rightarrow> decodeElems reg cd 0 elems None
      | _ \<Rightarrow> Inl (Wrapf ErrInvalidContainerType ''type applied''))"

section \<open>Outbound dial (rpc.dial)\<close>

text \<open>
  The collaborators of \<open>dial\<close>: \<open>net.Dial\<close>, the key store's node ID bytes and nonce,
  the anonymous node ID, and \<open>conn.Write\<close>, which answers the number of bytes written
  and an error. The result is the pair the Go function returns, the encrypted connection
  (nil is \<open>None\<close>) and the error, and with them the bytes that reached the socket.
\<close>

type_synonym Conn = nat


record dialer =
  netDial :: "string \<Rightarrow> string \<Rightarrow> error + Conn"
  connWrite :: "Conn \<Rightarrow> byte list \<Rightarrow> nat \<times> error option"
  AnonymousRawNodeID :: "byte list"
  GetLocalNodeIDBytes :: "error + byte list"
  GetLocalNonce :: "error + Uint256"



section \<open>DSN formatting and parsing (client.Config)\<close>

text \<open>
  \<open>FormatDSN\<close> and \<open>ParseDSN\<close> go through Go's \<open>net/url\<close>. The model below
  follows \<open>URL.String\<close> for a URL with a scheme and a host only, and \<open>url.Parse\<close> as
  far as the host and the error are concerned. Three shapes are left outside the model,
  with the answer \<open>Unmodelled\<close>: an authority with user information (\<open>@\<close>), a
  bracketed IP literal (\<open>[\<close>), and a host with a colon or an input with an ASCII control
  byte, on which releases of the library differ.
\<close>

record Config =
  DatabaseID :: string

datatype 'a outcome = Ok 'a | Failed | Unmodelled

text \<open>
  Modelled from the spec: the constant \<open>DBScheme\<close> is declared outside the sources at
  hand; the spec's scenario S4 formats a DSN as \<open>covenantsql://abc123\<close>. The other
  constant, \<open>DBSchemeAlias\<close>, is a parameter of \<open>ParseDSN\<close>.
\<close>

definition DBScheme :: string where
  "DBScheme = ''covenantsql''"

definition between :: "char \<Rightarrow> char \<Rightarrow> char \<Rightarrow> bool" where
  "between lo c hi = ((of_char lo :: nat) \<le> of_char c \<and> (of_char c :: nat) \<le> of_char hi)"

definition isAlpha :: "char \<Rightarrow> bool" where
  "isAlpha c = (between CHR ''a'' c CHR ''z'' \<or> between CHR ''A'' c CHR ''Z'')"

definition isDigit :: "char \<Rightarrow> bool" where
  "isDigit c = between CHR ''0'' c CHR ''9''"

definition ishex :: "char \<Rightarrow> bool" where
  "ishex c = (isDigit c \<or> between CHR ''a'' c CHR ''f'' \<or> between CHR ''A'' c CHR ''F'')"

definition shouldEscapeHost :: "char \<Rightarrow> bool" where
  "shouldEscapeHost c =
     (\<not> (isAlpha c \<or> isDigit c
          \<or> c \<in> set ''!$&()*+,;=:[]<>'' \<or> c = CHR 0x27 \<or> c = CHR 0x22
          \<or> c \<in> set ''-_.~''))"

definition upperhex :: "nat \<Rightarrow> char" where
  "upperhex d = (''0123456789ABCDEF'') ! (d mod 16)"

definition escapeHost :: "string \<Rightarrow> string" where
  "escapeHost s =
     concat (map (\<lambda>c. if shouldEscapeHost c
                       then [CHR ''%'', upperhex (of_char c div 16), upperhex (of_char c mod 16)]
                       else [c]) s)"

definition HasPrefix :: "string \<Rightarrow> string \<Rightarrow> bool" where
  "HasPrefix s pre = (take (length pre) s = pre)"

text \<open>\<open>URL.String\<close> for \<open>&url.URL{Scheme: scheme, Host: host}\<close> with an empty query.\<close>

definition URL_String :: "string \<Rightarrow> string \<Rightarrow> string" where
  "URL_String scheme host =
     (if scheme \<noteq> [] then scheme @ '':'' else [])
     @ (if scheme \<noteq> [] \<or> host \<noteq> []
        then (if host \<noteq> [] then ''//'' else []) @ (if host \<noteq> [] then escapeHost host else [])
        else [])"

definition FormatDSN :: "Config \<Rightarrow> string" where
  "FormatDSN cfg = URL_String DBScheme (DatabaseID cfg)"

fun getscheme_loop :: "string \<Rightarrow> nat \<Rightarrow> string \<Rightarrow> (string \<times> string) option" where
  "getscheme_loop rawurl i [] = Some ([], rawurl)"
| "getscheme_loop rawurl i (c # cs) =
     (if isAlpha c then getscheme_loop rawurl (Suc i) cs
      else if isDigit c \<or> c = CHR ''+'' \<or> c = CHR ''-'' \<or> c = CHR ''.''
      then (if i = 0 then Some ([], rawurl) else getscheme_loop rawurl (Suc i) cs)
      else if c = CHR '':''
      then (if i = 0 then None else Some (take i rawurl, drop (Suc i) rawurl))
      else Some ([], rawurl))"

definition getscheme :: "string \<Rightarrow> (string \<times> string) option" where
  "getscheme rawurl = getscheme_loop rawurl 0 rawurl"

text \<open>A percent sign that is not followed by two hex digits makes \<open>unescape\<close> fail.\<close>

fun badEscape :: "string \<Rightarrow> bool" where
  "badEscape [] = False"
| "badEscape (c # cs) =
     (if c = CHR ''%''
      then (case cs of
              a # b # rest \<Rightarrow> \<not> ishex a \<or> \<not> ishex b \<or> badEscape rest
            | _ \<Rightarrow> True)
      else badEscape cs)"

definition unhex :: "char \<Rightarrow> nat" where
  "unhex c =
     (if isDigit c then of_char c - of_char CHR ''0''
      else if between CHR ''a'' c CHR ''f'' then of_char c - of_char CHR ''a'' + 10
      else if between CHR ''A'' c CHR ''F'' then of_char c - of_char CHR ''A'' + 10
      else 0)"

text \<open>
  \<open>unescape\<close> in host mode: an escape may only stand for a non-ASCII byte (or be
  \<open>%25\<close>), and an ASCII byte that would need escaping is an invalid host character.
\<close>

fun unescapeHost :: "string \<Rightarrow> string option" where
  "unescapeHost [] = Some []"
| "unescapeHost (c # cs) =
     (if c = CHR ''%''
      then (case cs of
              a # b # rest \<Rightarrow>
                if \<not> ishex a \<or> \<not> ishex b then None
                else if unhex a < 8 \<and> [a, b] \<noteq> ''25'' then None
                else map_option ((#) (char_of (unhex a * 16 + unhex b))) (unescapeHost rest)
            | _ \<Rightarrow> None)
      else if (of_char c :: nat) < 0x80 \<and> shouldEscapeHost c then None
      else map_option ((#) c) (unescapeHost cs))"

definition parseHost :: "string \<Rightarrow> string outcome" where
  "parseHost host =
     (if HasPrefix host ''['' \<or> CHR '':'' \<in> set host then Unmodelled
      else (case unescapeHost host of None \<Rightarrow> Failed | Some h \<Rightarrow> Ok h))"

definition parseAuthority :: "string \<Rightarrow> string outcome" where
  "parseAuthority authority =
     (if CHR ''@'' \<in> set authority then Unmodelled else parseHost authority)"

definition isCTL :: "char \<Rightarrow> bool" where
  "isCTL c = ((of_char c :: nat) < 0x20 \<or> c = CHR 0x7F)"

text \<open>
  \<open>url.Parse\<close>, returning the host of the parsed URL: cut the fragment at \<open>#\<close>, take
  the scheme, cut the query at \<open>?\<close>, treat a rootless rest under a scheme as opaque,
  read the authority after \<open>//\<close> up to the next \<open>/\<close>, and unescape the path and the
  fragment.
\<close>

definition url_Parse :: "string \<Rightarrow> string outcome" where
  "url_Parse rawurl =
     (if \<exists>c \<in> set rawurl. isCTL c then Unmodelled
      else
     (let u = takeWhile (\<lambda>c. c \<noteq> CHR ''#'') rawurl;
          frag = drop 1 (dropWhile (\<lambda>c. c \<noteq> CHR ''#'') rawurl)
      in if u = ''*'' then (if badEscape frag then Failed else Ok [])
         else
     (case getscheme u of
        None \<Rightarrow> Failed
      | Some (scheme, rest0) \<Rightarrow>
     (let rest = takeWhile (\<lambda>c. c \<noteq> CHR ''?'') rest0
      in if \<not> HasPrefix rest ''/'' \<and> scheme \<noteq> []
         then (if badEscape frag then Failed else Ok [])
         else if \<not> HasPrefix rest ''/'' \<and> CHR '':'' \<in> set (takeWhile (\<lambda>c. c \<noteq> CHR ''/'') rest)
         then Failed
         else if (scheme \<noteq> [] \<or> \<not> HasPrefix rest ''///'') \<and> HasPrefix rest ''//''
         then
           (let authority = takeWhile (\<lambda>c. c \<noteq> CHR ''/'') (drop 2 rest);
                path = dropWhile (\<lambda>c. c \<noteq> CHR ''/'') (drop 2 rest)
            in case parseAuthority authority of
                 Ok host \<Rightarrow> if badEscape path \<or> badEscape frag then Failed else Ok host
               | other \<Rightarrow> other)
         else if badEscape rest \<or> badEscape frag then Failed else Ok []))))"

definition ParseDSN :: "string \<Rightarrow> string \<Rightarrow> Config outcome" where
  "ParseDSN DBSchemeAlias dsn =
     (let dsn' = (if \<not> HasPrefix dsn DBScheme \<and> \<not> HasPrefix dsn DBSchemeAlias
                  then DBScheme @ ''://'' @ dsn else dsn)
      in case url_Parse dsn' of
           Ok host \<Rightarrow> Ok \<lparr>DatabaseID = host\<rparr>
         | Failed \<Rightarrow> Failed
         | Unmodelled \<Rightarrow> Unmodelled)"


section \<open>Concrete scenarios\<close>

text \<open>
  \<open>insertionSort\<close> is the insertion sort \<open>sort.Slice\<close> ends with on a short slice:
  each element in turn moves left while it is less than its left neighbour. The sorted
  prefix is kept reversed in \<open>insertLeft\<close>.
\<close>

fun insertLeft :: "('a \<Rightarrow> 'a \<Rightarrow> bool) \<Rightarrow> 'a \<Rightarrow> 'a list \<Rightarrow> 'a list" where
  "insertLeft lt x [] = [x]"
| "insertLeft lt x (y # ys) = (if lt x y then y # insertLeft lt x ys else x # y # ys)"

definition insertionSort :: "('a \<Rightarrow> 'a \<Rightarrow> bool) \<Rightarrow> 'a list \<Rightarrow> 'a list" where
  "insertionSort lt xs = rev (foldl (\<lambda>acc x. insertLeft lt x acc) [] xs)"

text \<open>
  Scenario S1 of the spec: five miners with free memory 8G, 6G, 4G, 2G and 1G. On the
  ring the 4G node is the nearest to the key, then the 6G and the 8G node.
\<close>

definition GiB :: u64 where
  "GiB = 1073741824"

definition S1_ring :: "Node list" where
  "S1_ring =
     [\<lparr>Node_ID = ''n4G'', Node_Role = Miner, Node_PublicKey = 3\<rparr>,
      \<lparr>Node_ID = ''n6G'', Node_Role = Miner, Node_PublicKey = 2\<rparr>,
      \<lparr>Node_ID = ''n8G'', Node_Role = Miner, Node_PublicKey = 1\<rparr>,
      \<lparr>Node_ID = ''n2G'', Node_Role = Miner, Node_PublicKey = 4\<rparr>,
      \<lparr>Node_ID = ''n1G'', Node_Role = Miner, Node_PublicKey = 5\<rparr>]"

definition gaugeMetric :: "u64 \<Rightarrow> MetricMap" where
  "gaugeMetric v =
     [''node_memory_MemFree_bytes'' \<mapsto>
        Some \<lparr>MF_Type = GAUGE,
              MF_Metric = [\<lparr>Metric_Gauge = Some v, Metric_Counter = None\<rparr>]\<rparr>]"

definition S1_free :: "(NodeID \<times> u64) list" where
  "S1_free =
     [(''n8G'', 8 * GiB), (''n6G'', 6 * GiB), (''n4G'', 4 * GiB), (''n2G'', 2 * GiB),
      (''n1G'', GiB)]"

definition metricsOf :: "(NodeID \<times> u64) list \<Rightarrow> NodeID list \<Rightarrow> (NodeID \<times> MetricMap) list" where
  "metricsOf free ids =
     concat (map (\<lambda>i. case map_of free i of None \<Rightarrow> [] | Some v \<Rightarrow> [(i, gaugeMetric v)]) ids)"

definition ringOf :: "Node list \<Rightarrow> string \<Rightarrow> int \<Rightarrow> ServerRole list \<Rightarrow> Node list" where
  "ringOf ring key n roles = take (nat n) (filter (\<lambda>node. Node_Role node \<in> set roles) ring)"

definition S1_service :: DBService where
  "S1_service =
     \<lparr>AllocationRounds = 3, includeBPNodesForAllocation = False,
      GetNeighborsEx = ringOf S1_ring, GetMetrics = metricsOf S1_free,
      GetBPs = [''bp1''], sortSlice = insertionSort\<rparr>"

definition ok_kms :: kms where
  "ok_kms = \<lparr>GetLocalPublicKey = Inr 100, GetLocalPrivateKey = Inr 200,
             GetLocalNodeID = Inr ''bp1''\<rparr>"

definition ok_signer :: signer where
  "ok_signer =
     \<lparr>svcSign = (\<lambda>key r. (None, r\<lparr>US_Signee := Some 100, US_Signature := Some 1\<rparr>)),
      peersSign = (\<lambda>key p. Inr 2),
      PackAndSignBlock = (\<lambda>key b. (None, b\<lparr>Block_Signature := Some 3\<rparr>)),
      respSign = (\<lambda>key i. None)\<rparr>"

definition failing_svc_signer :: signer where
  "failing_svc_signer = ok_signer\<lparr>svcSign := (\<lambda>key r. (Some (ExtError ''sign failed''), r))\<rparr>"

definition ok_net :: net where
  "ok_net = \<lparr>callNode = (\<lambda>n req. None), sched = (\<lambda>req nodes. nodes)\<rparr>"

definition ok_store :: store where
  "ok_store = \<lparr>commitSet = (\<lambda>i. None), commitDelete = (\<lambda>d. None)\<rparr>"

text \<open>
  Scenario S6: three miners, the second one refuses the \<open>CreateDB\<close> request, and the
  calls finish in the order of the node list.
\<close>

definition S6_net :: net where
  "S6_net =
     \<lparr>callNode = (\<lambda>n req. if n = ''m2'' \<and> map_option US_Op req = Some CreateDB
                           then Some (ExtError ''deploy failed'') else None),
      sched = (\<lambda>req nodes. nodes)\<rparr>"

definition S6_create :: UpdateService where
  "S6_create =
     \<lparr>US_Op = CreateDB,
      US_Instance = \<lparr>SI_DatabaseID = ''0a'', SI_Peers = None,
                      SI_ResourceMeta = zeroResourceMeta, SI_GenesisBlock = None\<rparr>,
      US_Signee = Some 100, US_Signature = Some 1\<rparr>"

definition S6_rollback :: UpdateService where
  "S6_rollback = S6_create\<lparr>US_Op := DropDB\<rparr>"

text \<open>
  A toy hash for the generator: the hash of \<open>data \<parallel> nonce\<close> is the single byte
  \<open>0xFF\<close> when the low byte of the nonce is 0 and that low byte otherwise.
\<close>

definition toyHash :: "byte list \<Rightarrow> byte list" where
  "toyHash bs =
     (case drop (length bs - 32) bs of
        [] \<Rightarrow> [0xFF]
      | b # _ \<Rightarrow> if b = 0 then [0xFF] else [b])"

definition S1_world :: world where
  "S1_world =
     \<lparr>W_service = S1_service, W_kms = ok_kms, W_signer = ok_signer, W_net = ok_net,
      W_store = ok_store, W_hash = toyHash, W_now = 0\<rparr>"

definition S1_request :: CreateDatabaseRequest where
  "S1_request =
     \<lparr>CDR_ResourceMeta = \<lparr>RM_Node = 3, RM_Memory = 3 * GiB\<rparr>, CDR_NodeID = [1, 2],
      CDR_Verify = None\<rparr>"

definition S1_instance :: ServiceInstance where
  "S1_instance =
     \<lparr>SI_DatabaseID = ''01'',
      SI_Peers = Some \<lparr>Peers_Term = 1, Peers_Leader = None,
                       Peers_Servers =
                         [Some \<lparr>Server_Role = Leader, Server_ID = ''m1'', Server_PubKey = 1\<rparr>,
                          Some \<lparr>Server_Role = Follower, Server_ID = ''m2'', Server_PubKey = 2\<rparr>],
                       Peers_PubKey = 100, Peers_Signature = Some 2\<rparr>,
      SI_ResourceMeta = \<lparr>RM_Node = 2, RM_Memory = GiB\<rparr>, SI_GenesisBlock = None\<rparr>"

text \<open>A ring with a single miner, for a request of two nodes.\<close>

definition lonely_service :: DBService where
  "lonely_service =
     S1_service\<lparr>GetNeighborsEx :=
       ringOf [\<lparr>Node_ID = ''n8G'', Node_Role = Miner, Node_PublicKey = 1\<rparr>]\<rparr>"

text \<open>Scenario S5: type tag 7 is registered for a struct with one field, zero value 0.\<close>

definition S5_registry :: "nat txTypeMapping" where
  "S5_registry = [7 \<mapsto> \<lparr>RT_Implements = True, RT_IsWrapper = False, RT_Zero = 0\<rparr>]"

definition S5_codec :: "nat codec" where
  "S5_codec =
     \<lparr>DecFallback = (\<lambda>tx v. case v of MUint n \<Rightarrow> Inr (Some n)
                                | _ \<Rightarrow> Inl (ExtError ''codec: cannot decode body'')),
      ErrorIfNoField = False\<rparr>"

text \<open>
  A dialer whose socket takes every byte, and one whose socket takes ten bytes and
  reports the short write.
\<close>

definition ok_dialer :: dialer where
  "ok_dialer =
     \<lparr>netDial = (\<lambda>network address. Inr 7),
      connWrite = (\<lambda>c p. (length p, None)),
      AnonymousRawNodeID = replicate 32 0,
      GetLocalNodeIDBytes = Inr (replicate 32 1),
      GetLocalNonce = Inr 5\<rparr>"



text \<open>What scenario S1 produces: the peers, the genesis block and the registered instance.\<close>

definition S1_peers :: Peers where
  "S1_peers =
     \<lparr>Peers_Term = 1,
      Peers_Leader = Some \<lparr>Server_Role = Leader, Server_ID = ''n4G'', Server_PubKey = 3\<rparr>,
      Peers_Servers =
        [Some \<lparr>Server_Role = Leader, Server_ID = ''n4G'', Server_PubKey = 3\<rparr>,
         Some \<lparr>Server_Role = Follower, Server_ID = ''n6G'', Server_PubKey = 2\<rparr>,
         Some \<lparr>Server_Role = Follower, Server_ID = ''n8G'', Server_PubKey = 1\<rparr>],
      Peers_PubKey = 100, Peers_Signature = Some 2\<rparr>"

definition S1_genesis :: Block where
  "S1_genesis =
     \<lparr>Block_Version = 0x01000000, Block_Producer = ''bp1'', Block_Timestamp = 0,
      Block_Signature = Some 3\<rparr>"

definition S1_created :: ServiceInstance where
  "S1_created =
     \<lparr>SI_DatabaseID = ''01'', SI_Peers = Some S1_peers,
      SI_ResourceMeta = \<lparr>RM_Node = 3, RM_Memory = 3 * GiB\<rparr>,
      SI_GenesisBlock = Some S1_genesis\<rparr>"

definition S1_initSvcReq :: UpdateService where
  "S1_initSvcReq =
     \<lparr>US_Op = CreateDB,
      US_Instance = \<lparr>SI_DatabaseID = ''01'', SI_Peers = Some S1_peers,
                      SI_ResourceMeta = zeroResourceMeta, SI_GenesisBlock = Some S1_genesis\<rparr>,
      US_Signee = Some 100, US_Signature = Some 1\<rparr>"


text \<open>
  A ring of four miners \<open>z\<close>, \<open>c\<close>, \<open>b\<close>, \<open>a\<close>, nearest first. The record
  of \<open>z\<close> has no free-memory key; \<open>c\<close> has 8G free, \<open>b\<close> and \<open>a\<close> 4G each.
\<close>

definition recordsOf ::
  "(NodeID \<times> MetricMap) list \<Rightarrow> NodeID list \<Rightarrow> (NodeID \<times> MetricMap) list" where
  "recordsOf records ids =
     concat (map (\<lambda>i. case map_of records i of None \<Rightarrow> [] | Some m \<Rightarrow> [(i, m)]) ids)"

definition wide_ring :: "Node list" where
  "wide_ring =
     [\<lparr>Node_ID = ''z'', Node_Role = Miner, Node_PublicKey = 26\<rparr>,
      \<lparr>Node_ID = ''c'', Node_Role = Miner, Node_PublicKey = 3\<rparr>,
      \<lparr>Node_ID = ''b'', Node_Role = Miner, Node_PublicKey = 2\<rparr>,
      \<lparr>Node_ID = ''a'', Node_Role = Miner, Node_PublicKey = 1\<rparr>]"

definition wide_records :: "(NodeID \<times> MetricMap) list" where
  "wide_records =
     [(''z'', Map.empty), (''c'', gaugeMetric (8 * GiB)), (''b'', gaugeMetric (4 * GiB)),
      (''a'', gaugeMetric (4 * GiB))]"

definition wide_service :: DBService where
  "wide_service =
     S1_service\<lparr>GetNeighborsEx := ringOf wide_ring, GetMetrics := recordsOf wide_records\<rparr>"

definition wide_peers :: Peers where
  "wide_peers =
     \<lparr>Peers_Term = 1,
      Peers_Leader = Some \<lparr>Server_Role = Leader, Server_ID = ''c'', Server_PubKey = 3\<rparr>,
      Peers_Servers =
        [Some \<lparr>Server_Role = Leader, Server_ID = ''c'', Server_PubKey = 3\<rparr>,
         Some \<lparr>Server_Role = Follower, Server_ID = ''b'', Server_PubKey = 2\<rparr>],
      Peers_PubKey = 100, Peers_Signature = Some 2\<rparr>"

text \<open>
  The three rounds of a request for two nodes with 4 GiB each on that ring: \<open>z\<close> is
  excluded in the first round, \<open>b\<close> and \<open>a\<close> in the second.
\<close>

definition wide_rounds :: "roundLog list" where
  "wide_rounds =
     [\<lparr>RL_range = 2, RL_nodes = take 2 wide_ring, RL_before = {''bp1''},
       RL_candidates = [''z'', ''c''],
       RL_accepted = [\<lparr>AN_NodeID = ''c'', AN_MemoryMetric = 8 * GiB\<rparr>],
       RL_after = {''bp1'', ''z''}\<rparr>,
      \<lparr>RL_range = 4, RL_nodes = wide_ring, RL_before = {''bp1'', ''z''},
       RL_candidates = [''c'', ''b'', ''a''],
       RL_accepted = [\<lparr>AN_NodeID = ''c'', AN_MemoryMetric = 8 * GiB\<rparr>],
       RL_after = {''bp1'', ''z'', ''b'', ''a''}\<rparr>,
      \<lparr>RL_range = 6, RL_nodes = wide_ring, RL_before = {''bp1'', ''z'', ''b'', ''a''},
       RL_candidates = [''c''], RL_accepted = [],
       RL_after = {''bp1'', ''z'', ''b'', ''a''}\<rparr>]"

text \<open>
  The two rounds of a request for two nodes with 3 GiB each on that ring: the second
  round accepts three nodes.
\<close>

definition wide_rounds_3G :: "roundLog list" where
  "wide_rounds_3G =
     [\<lparr>RL_range = 2, RL_nodes = take 2 wide_ring, RL_before = {''bp1''},
       RL_candidates = [''z'', ''c''],
       RL_accepted = [\<lparr>AN_NodeID = ''c'', AN_MemoryMetric = 8 * GiB\<rparr>],
       RL_after = {''bp1'', ''z''}\<rparr>,
      \<lparr>RL_range = 4, RL_nodes = wide_ring, RL_before = {''bp1'', ''z''},
       RL_candidates = [''c'', ''b'', ''a''],
       RL_accepted = [\<lparr>AN_NodeID = ''c'', AN_MemoryMetric = 8 * GiB\<rparr>,
                      \<lparr>AN_NodeID = ''b'', AN_MemoryMetric = 4 * GiB\<rparr>,
                      \<lparr>AN_NodeID = ''a'', AN_MemoryMetric = 4 * GiB\<rparr>],
       RL_after = {''bp1'', ''z''}\<rparr>]"

text \<open>The ring of scenario S1 with metric records for the 2G and the 1G node only.\<close>

definition norecord_service :: DBService where
  "norecord_service =
     S1_service\<lparr>GetMetrics := metricsOf [(''n2G'', 2 * GiB), (''n1G'', GiB)]\<rparr>"

text \<open>A dialer whose socket takes ten bytes and reports no error.\<close>

definition silent_dialer :: dialer where
  "silent_dialer = ok_dialer\<lparr>connWrite := (\<lambda>c p. (min 10 (length p), None))\<rparr>"

section \<open>Deployment fan-out: results\<close>

lemma batchSendSvcReq_all_nil:
  assumes "\<forall>n. callNode nw n req = None"
  shows "batchSendSvcReq nw req rb nodes = (None, map (\<lambda>n. (n, req)) (sched nw req nodes))"
proof -
  have "map (\<lambda>n. callNode nw n req) xs = replicate (length xs) None" for xs
    using assms by (induction xs) simp_all
  then have "batchSendSingleSvcReq nw req nodes =
      (None, map (\<lambda>n. (n, req)) (sched nw req nodes))"
    by (cases "sched nw req nodes") (simp_all add: batchSendSingleSvcReq_def Let_def)
  then show ?thesis by (simp add: batchSendSvcReq_def)
qed

text \<open>
  Claim C1 says that the rollback is fanned out and the deploy error returned whenever any
  target's deploy call fails. In scenario S6 the second of three miners fails and the calls
  finish in the order of the node list: the fan-out reads only the first result, which is
  nil, so it returns nil and sends no \<open>DropDB\<close> at all.
\<close>

theorem batchSendSvcReq_S6_no_rollback:
  "batchSendSvcReq S6_net (Some S6_create) (Some S6_rollback) [''m1'', ''m2'', ''m3''] =
     (None, [(''m1'', Some S6_create), (''m2'', Some S6_create), (''m3'', Some S6_create)])
   \<and> callNode S6_net ''m2'' (Some S6_create) = Some (ExtError ''deploy failed'')"
  by (simp add: batchSendSvcReq_def batchSendSingleSvcReq_def S6_net_def S6_create_def)

section \<open>DropDatabase: results\<close>

text \<open>
  Claim C10: in \<open>DropDatabase\<close> the result of signing the drop request is discarded.
  When the request verifies, the instance is registered, the keys are available and
  \<open>Sign\<close> fails with an error \<open>e\<close> leaving the request \<open>sent\<close> behind, the
  fan-out to the instance's peers and the deletion still take place: if every peer accepts
  the request and the store commits, \<open>DropDatabase\<close> returns nil, the instance is gone
  from the service map, and every peer was sent the request.
\<close>

theorem DropDatabase_sign_result_discarded:
  assumes "DDR_Verify req = None"
    and "sm (DDR_DatabaseID req) = Some inst"
    and "GetLocalPublicKey k = Inr pub"
    and "GetLocalPrivateKey k = Inr priv"
    and "svcSign sg priv (newDropDBSvcReq req pub) = (Some e, sent)"
    and "peersToNodes (SI_Peers inst) = Inr nodes"
    and "\<forall>n. callNode nw n (Some sent) = None"
    and "commitDelete st (DDR_DatabaseID req) = None"
  shows "DropDatabase k sg nw st sm req =
           (None, sm(DDR_DatabaseID req := None),
            map (\<lambda>n. (n, Some sent)) (sched nw (Some sent) nodes))"
  using assms batchSendSvcReq_all_nil [of nw "Some sent" None nodes]
  by (simp add: DropDatabase_def ServiceMap_Get_def ServiceMap_Delete_def Let_def)

theorem DropDatabase_sign_result_discarded_witness:
  "svcSign failing_svc_signer 200
       (newDropDBSvcReq \<lparr>DDR_DatabaseID = ''01'', DDR_Verify = None\<rparr> 100)
     = (Some (ExtError ''sign failed''),
        newDropDBSvcReq \<lparr>DDR_DatabaseID = ''01'', DDR_Verify = None\<rparr> 100)
   \<and> DropDatabase ok_kms failing_svc_signer ok_net ok_store [''01'' \<mapsto> S1_instance]
         \<lparr>DDR_DatabaseID = ''01'', DDR_Verify = None\<rparr> =
       (None, Map.empty,
        [(''m1'', Some (newDropDBSvcReq \<lparr>DDR_DatabaseID = ''01'', DDR_Verify = None\<rparr> 100)),
         (''m2'', Some (newDropDBSvcReq \<lparr>DDR_DatabaseID = ''01'', DDR_Verify = None\<rparr> 100))])"
  using DropDatabase_sign_result_discarded
      [of "\<lparr>DDR_DatabaseID = ''01'', DDR_Verify = None\<rparr>"
        "[''01'' \<mapsto> S1_instance]" S1_instance ok_kms 100 200 failing_svc_signer
        "ExtError ''sign failed''"
        "newDropDBSvcReq \<lparr>DDR_DatabaseID = ''01'', DDR_Verify = None\<rparr> 100"
        "[''m1'', ''m2'']" ok_net ok_store]
  by (simp add: ok_kms_def failing_svc_signer_def ok_signer_def ok_net_def ok_store_def
      S1_instance_def peersToNodes_def)


section \<open>Database ID generation: results\<close>

lemma ComputeBlockNonce_accepts:
  assumes "ComputeBlockNonce H data i d = Some r"
  shows "snd r = H (data @ Uint256_Bytes (fst r)) \<and> d \<le> leadingZeroBits (snd r)"
proof (rule ComputeBlockNonce.raw_induct
    [where P = "\<lambda>H data i d r. snd r = H (data @ Uint256_Bytes (fst r))
                   \<and> d \<le> leadingZeroBits (snd r)", OF _ assms])
  fix f :: "(byte list \<Rightarrow> byte list) \<Rightarrow> byte list \<Rightarrow> Uint256 \<Rightarrow> nat
              \<Rightarrow> (Uint256 \<times> byte list) option"
  fix H data i d r
  assume IH: "\<And>H data i d r. f H data i d = Some r \<Longrightarrow>
     snd r = H (data @ Uint256_Bytes (fst r)) \<and> d \<le> leadingZeroBits (snd r)"
  assume prem: "(let currentHash = H (data @ Uint256_Bytes i)
      in if d \<le> leadingZeroBits currentHash then Some (i, currentHash)
         else f H data (i + 1) d) = Some r"
  show "snd r = H (data @ Uint256_Bytes (fst r)) \<and> d \<le> leadingZeroBits (snd r)"
  proof (cases "d \<le> leadingZeroBits (H (data @ Uint256_Bytes i))")
    case True
    with prem have "r = (i, H (data @ Uint256_Bytes i))" by (simp add: Let_def)
    with True show ?thesis by simp
  next
    case False
    with prem have "f H data (i + 1) d = Some r" by (simp add: Let_def)
    then show ?thesis by (rule IH)
  qed
qed

lemma generateDatabaseID_from_sound:
  assumes "generateDatabaseID_from H sm reqNodeID start = Some dbID"
  shows "\<exists>nonce. dbID = hashString (H (reqNodeID @ Uint256_Bytes nonce))
       \<and> 4 \<le> leadingZeroBits (H (reqNodeID @ Uint256_Bytes nonce))
       \<and> sm dbID = None"
proof (rule generateDatabaseID_from.raw_induct
    [where P = "\<lambda>H sm reqNodeID start dbID.
       \<exists>nonce. dbID = hashString (H (reqNodeID @ Uint256_Bytes nonce))
       \<and> 4 \<le> leadingZeroBits (H (reqNodeID @ Uint256_Bytes nonce))
       \<and> sm dbID = None", OF _ assms])
  fix f :: "(byte list \<Rightarrow> byte list) \<Rightarrow> ServiceMap \<Rightarrow> byte list \<Rightarrow> Uint256 \<Rightarrow> DatabaseID option"
  fix H sm reqNodeID start dbID
  assume IH: "\<And>sm reqNodeID startNonce b y. f sm reqNodeID startNonce b = Some y \<Longrightarrow>
     \<exists>nonce. y = hashString (sm (startNonce @ Uint256_Bytes nonce))
       \<and> 4 \<le> leadingZeroBits (sm (startNonce @ Uint256_Bytes nonce))
       \<and> reqNodeID y = None"
  assume prem: "(case ComputeBlockNonce H reqNodeID start 4 of None \<Rightarrow> None
      | Some (nonce, h) \<Rightarrow>
          let dbID = hashString h
          in if ServiceMap_Get sm dbID = Inl ErrNoSuchDatabase
             then Some dbID
             else f H sm reqNodeID (nonce + 1)) = Some dbID"
  from prem obtain n h where
    m: "ComputeBlockNonce H reqNodeID start 4 = Some (n, h)"
    by (auto split: option.splits)
  from ComputeBlockNonce_accepts [OF m]
  have h: "h = H (reqNodeID @ Uint256_Bytes n)" "4 \<le> leadingZeroBits h" by auto
  show "\<exists>nonce. dbID = hashString (H (reqNodeID @ Uint256_Bytes nonce))
       \<and> 4 \<le> leadingZeroBits (H (reqNodeID @ Uint256_Bytes nonce))
       \<and> sm dbID = None"
  proof (cases "ServiceMap_Get sm (hashString h) = Inl ErrNoSuchDatabase")
    case True
    with prem m have "dbID = hashString h" by (simp add: Let_def)
    moreover from True have "sm (hashString h) = None"
      by (simp add: ServiceMap_Get_def split: option.splits)
    ultimately show ?thesis using h by blast
  next
    case False
    with prem m have "f H sm reqNodeID (n + 1) = Some dbID" by (simp add: Let_def)
    then show ?thesis by (rule IH)
  qed
qed

text \<open>
  Claim C5: every database ID the generator returns is the hex of the hash of the
  requester's raw node ID followed by the bytes of some nonce, that hash has at least 4
  leading zero bits, and the ID is not a key of the service map.
\<close>

theorem generateDatabaseID_sound:
  assumes "generateDatabaseID H sm reqNodeID = Some dbID"
  shows "\<exists>nonce. dbID = hashString (H (reqNodeID @ Uint256_Bytes nonce))
           \<and> 4 \<le> leadingZeroBits (H (reqNodeID @ Uint256_Bytes nonce))
           \<and> dbID \<notin> dom sm"
  using generateDatabaseID_from_sound [of H sm reqNodeID 0 dbID] assms
  by (auto simp: generateDatabaseID_def)

text \<open>
  With the toy hash and the ID \<open>01\<close> taken, the generator rejects nonce 0 (no leading
  zero bits), rejects nonce 1 (its ID is taken) and returns the ID of nonce 2.
\<close>

lemma ComputeBlockNonce_step:
  "ComputeBlockNonce H data i d =
     (if d \<le> leadingZeroBits (H (data @ Uint256_Bytes i))
      then Some (i, H (data @ Uint256_Bytes i))
      else ComputeBlockNonce H data (i + 1) d)"
  by (subst ComputeBlockNonce.simps) (simp add: Let_def)

lemma toyHash_nonce:
  "toyHash ([1, 2] @ Uint256_Bytes 0) = [0xFF]"
  "toyHash ([1, 2] @ Uint256_Bytes 1) = [1]"
  "toyHash ([1, 2] @ Uint256_Bytes 2) = [2]"
  by (simp_all add: toyHash_def Uint256_Bytes_def upt_rec)

lemma leadingZeroBits_toy: "leadingZeroBits [0xFF] = 0" "leadingZeroBits [1] = 7" "leadingZeroBits [2] = 6"
  by (simp_all add: leadingZerosByte_def upt_rec bit_numeral_simps)

lemma ComputeBlockNonce_toy_0: "ComputeBlockNonce toyHash [1, 2] 0 4 = Some (1, [1])"
proof -
  have "ComputeBlockNonce toyHash [1, 2] 0 4 = ComputeBlockNonce toyHash [1, 2] (0 + 1) 4"
    by (subst ComputeBlockNonce_step) (simp only: toyHash_nonce leadingZeroBits_toy, simp)
  also have "\<dots> = Some (1, [1])"
    by (subst ComputeBlockNonce_step) (simp only: toyHash_nonce leadingZeroBits_toy add_0, simp)
  finally show ?thesis .
qed

lemma ComputeBlockNonce_toy_2: "ComputeBlockNonce toyHash [1, 2] (1 + 1) 4 = Some (2, [2])"
  by (subst ComputeBlockNonce_step) (simp only: toyHash_nonce leadingZeroBits_toy one_add_one, simp)

lemma hashString_toy: "hashString [1] = ''01''" "hashString [2] = ''02''"
  by (simp_all add: hashString_def hexDigit_def)

lemma generateDatabaseID_from_step:
  assumes "ComputeBlockNonce H data start 4 = Some (n, h)"
  shows "generateDatabaseID_from H sm data start =
     (if sm (hashString h) = None then Some (hashString h)
      else generateDatabaseID_from H sm data (n + 1))"
  by (subst generateDatabaseID_from.simps)
    (simp add: assms Let_def ServiceMap_Get_def split: option.splits)

lemma generateDatabaseID_toy:
  "generateDatabaseID toyHash [''01'' \<mapsto> S1_instance] [1, 2] = Some ''02''"
proof -
  have "generateDatabaseID_from toyHash [''01'' \<mapsto> S1_instance] [1, 2] 0 =
      generateDatabaseID_from toyHash [''01'' \<mapsto> S1_instance] [1, 2] (1 + 1)"
    by (subst generateDatabaseID_from_step [OF ComputeBlockNonce_toy_0])
      (simp add: hashString_toy)
  also have "\<dots> = Some ''02''"
    by (subst generateDatabaseID_from_step [OF ComputeBlockNonce_toy_2])
      (simp add: hashString_toy)
  finally show ?thesis by (simp add: generateDatabaseID_def)
qed

theorem generateDatabaseID_sound_witness:
  "generateDatabaseID toyHash [''01'' \<mapsto> S1_instance] [1, 2] = Some ''02''
   \<and> (\<exists>nonce. ''02'' = hashString (toyHash ([1, 2] @ Uint256_Bytes nonce))
         \<and> 4 \<le> leadingZeroBits (toyHash ([1, 2] @ Uint256_Bytes nonce))
         \<and> ''02'' \<notin> dom [''01'' \<mapsto> S1_instance])"
  using generateDatabaseID_toy generateDatabaseID_sound [OF generateDatabaseID_toy]
  by blast


section \<open>Outbound dial: results\<close>







section \<open>DSN round trip: results\<close>

lemma ishex_code:
  "ishex c \<longleftrightarrow> (48 \<le> (of_char c :: nat) \<and> (of_char c :: nat) \<le> 57)
     \<or> (97 \<le> (of_char c :: nat) \<and> (of_char c :: nat) \<le> 102)
     \<or> (65 \<le> (of_char c :: nat) \<and> (of_char c :: nat) \<le> 70)"
  by (simp add: ishex_def isDigit_def between_def)

lemma ishex_plain:
  assumes "ishex c"
  shows "\<not> shouldEscapeHost c" "\<not> isCTL c" "c \<noteq> CHR ''#''" "c \<noteq> CHR ''?''" "c \<noteq> CHR ''/''"
    "c \<noteq> CHR ''@''" "c \<noteq> CHR '':''" "c \<noteq> CHR ''[''" "c \<noteq> CHR ''%''"
proof -
  from assms show "\<not> shouldEscapeHost c"
    by (auto simp: ishex_def shouldEscapeHost_def isAlpha_def isDigit_def between_def)
  from assms show "\<not> isCTL c"
    by (auto simp: ishex_code isCTL_def)
  from assms show "c \<noteq> CHR ''#''" "c \<noteq> CHR ''?''" "c \<noteq> CHR ''/''"
    "c \<noteq> CHR ''@''" "c \<noteq> CHR '':''" "c \<noteq> CHR ''[''" "c \<noteq> CHR ''%''"
    by (auto simp: ishex_code)
qed

lemma escapeHost_hex: "\<forall>c\<in>set s. ishex c \<Longrightarrow> escapeHost s = s"
  by (induction s) (simp_all add: escapeHost_def ishex_plain)

lemma unescapeHost_hex: "\<forall>c\<in>set s. ishex c \<Longrightarrow> unescapeHost s = Some s"
  by (induction s) (simp_all add: ishex_plain)

lemma takeWhile_hex:
  assumes "\<forall>c\<in>set s. ishex c"
  shows "takeWhile (\<lambda>c. c \<noteq> CHR ''#'') s = s" "takeWhile (\<lambda>c. c \<noteq> CHR ''?'') s = s"
    "takeWhile (\<lambda>c. c \<noteq> CHR ''/'') s = s"
    "dropWhile (\<lambda>c. c \<noteq> CHR ''#'') s = []" "dropWhile (\<lambda>c. c \<noteq> CHR ''/'') s = []"
  using assms by (auto simp: takeWhile_eq_all_conv dropWhile_eq_Nil_conv ishex_plain)

lemma FormatDSN_hex:
  assumes "DatabaseID cfg \<noteq> []" and "\<forall>c\<in>set (DatabaseID cfg). ishex c"
  shows "FormatDSN cfg = ''covenantsql://'' @ DatabaseID cfg"
  using assms by (simp add: FormatDSN_def URL_String_def DBScheme_def escapeHost_hex)

lemma getscheme_covenantsql:
  "getscheme (''covenantsql://'' @ s) = Some (''covenantsql'', ''//'' @ s)"
  by (simp add: getscheme_def isAlpha_def isDigit_def between_def)

lemma parseAuthority_hex:
  assumes "s \<noteq> []" and "\<forall>c\<in>set s. ishex c"
  shows "parseAuthority s = Ok s"
proof -
  from assms have "CHR ''@'' \<notin> set s" "CHR '':'' \<notin> set s"
    by (auto dest: ishex_plain)
  moreover from assms have "\<not> HasPrefix s ''[''"
    by (cases s) (auto simp: HasPrefix_def dest: ishex_plain)
  ultimately show ?thesis
    using assms by (simp add: parseAuthority_def parseHost_def unescapeHost_hex)
qed

lemma noctl_hex:
  assumes "\<forall>c\<in>set s. ishex c"
  shows "\<not> (\<exists>c\<in>set (''covenantsql://'' @ s). isCTL c)"
proof -
  have "\<forall>c\<in>set ''covenantsql://''. \<not> isCTL c" by (simp add: isCTL_def)
  with assms show ?thesis by (auto dest: ishex_plain(2))
qed

lemma cut_hex:
  assumes "\<forall>c\<in>set s. ishex c"
  shows "takeWhile (\<lambda>c. c \<noteq> CHR ''#'') (''covenantsql://'' @ s) = ''covenantsql://'' @ s"
   "dropWhile (\<lambda>c. c \<noteq> CHR ''#'') (''covenantsql://'' @ s) = []"
   "takeWhile (\<lambda>c. c \<noteq> CHR ''?'') (''//'' @ s) = ''//'' @ s"
  using assms by (simp_all add: takeWhile_hex)


lemma url_Parse_hex:
  assumes "s \<noteq> []" and "\<forall>c\<in>set s. ishex c"
  shows "url_Parse (''covenantsql://'' @ s) = Ok s"
proof -
  have star: "''covenantsql://'' @ s \<noteq> ''*''" by simp
  have pre: "HasPrefix (''//'' @ s) ''/''" "HasPrefix (''//'' @ s) ''//''"
    by (simp_all add: HasPrefix_def)
  have auth: "takeWhile (\<lambda>c. c \<noteq> CHR ''/'') (drop 2 (''//'' @ s)) = s"
    "dropWhile (\<lambda>c. c \<noteq> CHR ''/'') (drop 2 (''//'' @ s)) = []"
    using assms(2) by (simp_all add: takeWhile_hex)
  have sch: "''covenantsql'' \<noteq> []" by simp
  show ?thesis
    unfolding url_Parse_def Let_def
    by (simp only: noctl_hex [OF assms(2)] cut_hex [OF assms(2)] if_False if_True star
        getscheme_covenantsql option.case prod.case pre auth sch not_True_eq_False
        not_False_eq_True simp_thms parseAuthority_hex [OF assms] outcome.case badEscape.simps
        drop.simps)
qed


text \<open>
  Claim C9: for every config whose database ID is a non-empty string of hex digits,
  parsing the formatted DSN gives the config back, whatever the scheme alias is.
\<close>

theorem ParseDSN_FormatDSN:
  assumes "DatabaseID cfg \<noteq> []" and "\<forall>c\<in>set (DatabaseID cfg). ishex c"
  shows "ParseDSN DBSchemeAlias (FormatDSN cfg) = Ok cfg"
proof -
  have pre: "HasPrefix (''covenantsql://'' @ DatabaseID cfg) DBScheme"
    by (simp add: HasPrefix_def DBScheme_def)
  have "ParseDSN DBSchemeAlias (''covenantsql://'' @ DatabaseID cfg) =
      Ok \<lparr>DatabaseID = DatabaseID cfg\<rparr>"
    unfolding ParseDSN_def Let_def
    by (simp only: pre url_Parse_hex [OF assms] simp_thms if_False outcome.case)
  then show ?thesis by (simp only: FormatDSN_hex [OF assms] Config.surjective unit.exhaust) simp
qed

theorem ParseDSN_FormatDSN_witness:
  "DatabaseID \<lparr>DatabaseID = ''abc123''\<rparr> \<noteq> []
   \<and> FormatDSN \<lparr>DatabaseID = ''abc123''\<rparr> = ''covenantsql://abc123''
   \<and> ParseDSN ''cql'' ''covenantsql://abc123'' = Ok \<lparr>DatabaseID = ''abc123''\<rparr>"
proof -
  have h1: "DatabaseID \<lparr>DatabaseID = ''abc123''\<rparr> \<noteq> []" by simp
  have h2: "\<forall>c\<in>set (DatabaseID \<lparr>DatabaseID = ''abc123''\<rparr>). ishex c"
    by (simp add: ishex_def isDigit_def between_def)
  have f: "FormatDSN \<lparr>DatabaseID = ''abc123''\<rparr> = ''covenantsql://abc123''"
    by (simp add: FormatDSN_def URL_String_def DBScheme_def escapeHost_def shouldEscapeHost_def
        isAlpha_def isDigit_def between_def)
  from ParseDSN_FormatDSN [OF h1 h2, of "''cql''"] f h1 h2 show ?thesis by simp
qed


section \<open>Transaction envelope decoding: results\<close>

text \<open>
  Claim C7 says that an outer container that is not a 2-element array is refused with
  \<open>ErrInvalidContainerType\<close>. The decoder only checks that the container is an array:
  the empty array decodes to a nil transaction and the 1-element array \<open>[7]\<close> to the
  zero-valued instance of type 7, both without an error.
\<close>

theorem CodecDecodeSelf_container_counterexample:
  "length ([] :: msgpack list) \<noteq> 2
   \<and> CodecDecodeSelf S5_registry S5_codec (MArray []) = Inr None
   \<and> length [MUint 7] \<noteq> 2
   \<and> CodecDecodeSelf S5_registry S5_codec (MArray [MUint 7]) = Inr (Some 0)"
  by (simp add: CodecDecodeSelf_def S5_registry_def DecodeUint64_def UintV_def NewTransaction_def)

text \<open>
  Claim C7 as amended: a value that is not an array is refused with
  \<open>ErrInvalidContainerType\<close>; an array whose first element is nil, or an unsigned
  32-bit tag that is not registered, is refused with \<open>ErrInvalidTransactionType\<close>; and
  the array \<open>[tag]\<close> with a registered tag decodes to the zero-valued instance of the
  registered type.
\<close>

theorem CodecDecodeSelf_errors:
  "((\<forall>elems. v \<noteq> MArray elems) \<longrightarrow>
      (\<exists>e. CodecDecodeSelf reg cd v = Inl e \<and> cause e = ErrInvalidContainerType))
   \<and> CodecDecodeSelf reg cd (MArray (MNil # rest)) = Inl ErrInvalidTransactionType
   \<and> (t < 2 ^ 32 \<and> reg (of_nat t) = None \<longrightarrow>
      (\<exists>e. CodecDecodeSelf reg cd (MArray (MUint t # rest)) = Inl e
           \<and> cause e = ErrInvalidTransactionType))
   \<and> (u < 2 ^ 32 \<and> reg (of_nat u) = Some rt \<and> RT_Implements rt \<and> \<not> RT_IsWrapper rt \<longrightarrow>
      CodecDecodeSelf reg cd (MArray [MUint u]) = Inr (Some (RT_Zero rt)))"
proof (intro conjI impI)
  assume "\<forall>elems. v \<noteq> MArray elems"
  then show "\<exists>e. CodecDecodeSelf reg cd v = Inl e \<and> cause e = ErrInvalidContainerType"
    by (cases v) (simp_all add: CodecDecodeSelf_def)
next
  show "CodecDecodeSelf reg cd (MArray (MNil # rest)) = Inl ErrInvalidTransactionType"
    by (simp add: CodecDecodeSelf_def)
next
  assume "t < 2 ^ 32 \<and> reg (of_nat t) = None"
  then show "\<exists>e. CodecDecodeSelf reg cd (MArray (MUint t # rest)) = Inl e
           \<and> cause e = ErrInvalidTransactionType"
    by (simp add: CodecDecodeSelf_def DecodeUint64_def UintV_def NewTransaction_def)
next
  assume "u < 2 ^ 32 \<and> reg (of_nat u) = Some rt \<and> RT_Implements rt \<and> \<not> RT_IsWrapper rt"
  then show "CodecDecodeSelf reg cd (MArray [MUint u]) = Inr (Some (RT_Zero rt))"
    by (simp add: CodecDecodeSelf_def DecodeUint64_def UintV_def NewTransaction_def)
qed

theorem CodecDecodeSelf_errors_witness:
  "(\<forall>elems. MStr ''x'' \<noteq> MArray elems)
   \<and> (\<exists>e. CodecDecodeSelf S5_registry S5_codec (MStr ''x'') = Inl e
          \<and> cause e = ErrInvalidContainerType)
   \<and> CodecDecodeSelf S5_registry S5_codec (MArray [MNil, MUint 42]) = Inl ErrInvalidTransactionType
   \<and> (99 :: nat) < 2 ^ 32 \<and> S5_registry (of_nat 99) = None
   \<and> (\<exists>e. CodecDecodeSelf S5_registry S5_codec (MArray [MUint 99, MUint 42]) = Inl e
          \<and> cause e = ErrInvalidTransactionType)
   \<and> (7 :: nat) < 2 ^ 32
   \<and> S5_registry (of_nat 7) = Some \<lparr>RT_Implements = True, RT_IsWrapper = False, RT_Zero = 0\<rparr>
   \<and> CodecDecodeSelf S5_registry S5_codec (MArray [MUint 7]) = Inr (Some 0)"
  using CodecDecodeSelf_errors [of "MStr ''x''" S5_registry S5_codec "[MUint 42]" 99 7
      "\<lparr>RT_Implements = True, RT_IsWrapper = False, RT_Zero = 0\<rparr>"]
  by (simp add: S5_registry_def)


section \<open>Database allocator: results\<close>







text \<open>
  Claim C6 says that the range the ring is asked for grows by the node count on every
  round. With a single miner on the ring and a request for two nodes, every round finds too
  few candidates and leaves through \<open>continue\<close>: the ring is asked for 2 nodes three
  times, not for 2, 4 and 6.
\<close>

theorem allocateNodes_same_range_after_continue:
  "allocateNodes lonely_service ok_kms ok_signer 0 ''01'' \<lparr>RM_Node = 2, RM_Memory = 3 * GiB\<rparr>
     = (Inl ErrDatabaseAllocation, [2, 2, 2])"
  by code_simp


section \<open>Peers of an allocation: results\<close>

lemma setServers_result:
  "setServers sv idx ns = Inr sv' \<Longrightarrow>
     length sv' = length sv
     \<and> (\<forall>i < length sv. sv' ! i =
          (if idx \<le> i \<and> i < idx + length ns then Some (newFollower (ns ! (i - idx)))
           else sv ! i))"
proof (induction ns arbitrary: sv idx)
  case Nil
  then show ?case by auto
next
  case (Cons n ns)
  from Cons.prems have idx: "idx < length sv"
    and rest: "setServers (sv[idx := Some (newFollower n)]) (Suc idx) ns = Inr sv'"
    by (simp_all split: if_splits)
  from Cons.IH [OF rest] have len: "length sv' = length sv"
    and nth: "\<forall>i < length sv. sv' ! i =
          (if Suc idx \<le> i \<and> i < Suc idx + length ns then Some (newFollower (ns ! (i - Suc idx)))
           else sv[idx := Some (newFollower n)] ! i)"
    by simp_all
  show ?case
  proof (intro conjI allI impI)
    show "length sv' = length sv" by (rule len)
  next
    fix i assume i: "i < length sv"
    show "sv' ! i = (if idx \<le> i \<and> i < idx + length (n # ns)
            then Some (newFollower ((n # ns) ! (i - idx))) else sv ! i)"
    proof (cases "i = idx")
      case True
      with nth i idx show ?thesis by simp
    next
      case False
      with nth i show ?thesis by (auto simp: nth_Cons' Suc_diff_Suc)
    qed
  qed
qed

lemma buildPeers_result:
  assumes "buildPeers k sg term nodes allocated = Inr p"
  shows "Peers_Term p = term \<and> length (Peers_Servers p) = length allocated
     \<and> (\<exists>s0. Peers_Servers p ! 0 = Some s0 \<and> Server_Role s0 = Leader
              \<and> Peers_Leader p = Some s0)
     \<and> (\<forall>i s. 0 < i \<and> i < length (Peers_Servers p) \<and> Peers_Servers p ! i = Some s
              \<longrightarrow> Server_Role s = Follower)
     \<and> (\<forall>s. Some s \<in> set (Peers_Servers p) \<longrightarrow> Server_ID s \<in> set allocated)"
proof -
  let ?an = "filter (\<lambda>node. Node_ID node \<in> set allocated) nodes"
  from assms obtain pubKey s0 rest sig where
    set: "setServers (replicate (length allocated) None) 0 ?an = Inr (Some s0 # rest)"
    and p: "p = \<lparr>Peers_Term = term, Peers_Leader = Some (s0\<lparr>Server_Role := Leader\<rparr>),
                 Peers_Servers = Some (s0\<lparr>Server_Role := Leader\<rparr>) # rest,
                 Peers_PubKey = pubKey, Peers_Signature = Some sig\<rparr>"
    by (auto simp: buildPeers_def Let_def split: sum.splits list.splits option.splits)
  from setServers_result [OF set]
  have len: "length (Some s0 # rest) = length allocated"
    and nth: "\<forall>i < length allocated. (Some s0 # rest) ! i =
          (if i < length ?an then Some (newFollower (?an ! i)) else None)"
    by simp_all
  have ids: "Server_ID s \<in> set allocated" if "Some s \<in> set (Some s0 # rest)" for s
  proof -
    from that obtain i where i: "i < length (Some s0 # rest)" "(Some s0 # rest) ! i = Some s"
      by (meson in_set_conv_nth)
    with nth len have "i < length ?an" "s = newFollower (?an ! i)"
      by (auto split: if_splits)
    moreover from this(1) have "?an ! i \<in> set ?an" by (rule nth_mem)
    ultimately show ?thesis by (auto simp: newFollower_def)
  qed
  have roles: "Server_Role s = Follower" if "Some s \<in> set (Some s0 # rest)" for s
  proof -
    from that obtain i where i: "i < length (Some s0 # rest)" "(Some s0 # rest) ! i = Some s"
      by (meson in_set_conv_nth)
    with nth len have "s = newFollower (?an ! i)" by (auto split: if_splits)
    then show ?thesis by (simp add: newFollower_def)
  qed
  show ?thesis
  proof (intro conjI allI impI)
    show "Peers_Term p = term" by (simp add: p)
    show "length (Peers_Servers p) = length allocated" using len by (simp add: p)
    show "\<exists>s0. Peers_Servers p ! 0 = Some s0 \<and> Server_Role s0 = Leader \<and> Peers_Leader p = Some s0"
      by (simp add: p)
  next
    fix i s
    assume "0 < i \<and> i < length (Peers_Servers p) \<and> Peers_Servers p ! i = Some s"
    then have "Some s \<in> set rest" by (cases i) (auto simp: p dest: nth_mem)
    then show "Server_Role s = Follower" using roles by simp
  next
    fix s assume "Some s \<in> set (Peers_Servers p)"
    then show "Server_ID s \<in> set allocated"
      using ids [of s0] ids [of s] by (auto simp: p)
  qed
qed

lemma checkMetrics_accepted:
  "checkMetrics memory metrics allocated excludeNodes = Inr (allocated', excludeNodes') \<Longrightarrow>
     \<forall>a\<in>set allocated'. a \<in> set allocated \<or> memory < AN_MemoryMetric a"
proof (induction metrics arbitrary: allocated excludeNodes)
  case Nil
  then show ?case by simp
next
  case (Cons m metrics)
  obtain nodeID nodeMetric where m: "m = (nodeID, nodeMetric)" by (cases m)
  show ?case
    using Cons.prems Cons.IH unfolding m
    by (fastforce split: sum.splits if_splits)
qed

lemma allocRounds_success:
  "fst (allocRounds s k sg lastTerm dbID rm left curRange ex) = Inr p \<Longrightarrow>
     \<exists>nodes accepted. unat (RM_Node rm) \<le> length accepted
       \<and> (\<forall>a\<in>set accepted. RM_Memory rm < AN_MemoryMetric a)
       \<and> buildPeers k sg (lastTerm + 1) nodes (nodeAllocated s (unat (RM_Node rm)) accepted) = Inr p"
proof (induction left arbitrary: curRange ex)
  case 0
  then show ?case by simp
next
  case (Suc left)
  let ?nodes = "GetNeighborsEx s dbID (sint curRange) (rolesFilter s)"
  let ?ids = "map Node_ID (filter (\<lambda>node. Node_ID node \<notin> ex) ?nodes)"
  show ?case
  proof (cases "length ?ids < unat (RM_Node rm)")
    case True
    with Suc.prems have "fst (allocRounds s k sg lastTerm dbID rm left curRange ex) = Inr p"
      by (simp add: Let_def)
    then show ?thesis by (rule Suc.IH)
  next
    case enough: False
    show ?thesis
    proof (cases "checkMetrics (RM_Memory rm) (GetMetrics s ?ids) [] ex")
      case (Inl e)
      with Suc.prems enough show ?thesis by (simp add: Let_def)
    next
      case (Inr r)
      obtain accepted ex' where r: "r = (accepted, ex')" by (cases r)
      from checkMetrics_accepted [OF Inr [unfolded r]]
      have gate: "\<forall>a\<in>set accepted. RM_Memory rm < AN_MemoryMetric a" by simp
      show ?thesis
      proof (cases "unat (RM_Node rm) \<le> length accepted")
        case True
        with Suc.prems enough Inr r
        have "buildPeers k sg (lastTerm + 1) ?nodes
                (nodeAllocated s (unat (RM_Node rm)) accepted) = Inr p"
          by (simp add: Let_def)
        with True gate show ?thesis by blast
      next
        case False
        with Suc.prems enough Inr r
        have "fst (allocRounds s k sg lastTerm dbID rm left
                     (curRange + ucast (RM_Node rm)) ex') = Inr p"
          by (simp add: Let_def)
        then show ?thesis by (rule Suc.IH)
      qed
    qed
  qed
qed

lemma allocateNodes_rounds:
  assumes "fst (allocateNodes s k sg lastTerm dbID rm) = Inr p"
  shows "fst (allocRounds s k sg lastTerm dbID rm (unat (AllocationRounds s))
                (ucast (RM_Node rm)) (seedExcluded s)) = Inr p"
  using assms
  by (simp add: allocateNodes_def allocateNodesLog_def split: if_splits prod.splits)

lemma mset_insertLeft: "mset (insertLeft lt x ys) = add_mset x (mset ys)"
  by (induction ys) simp_all





lemma length_insertionSort: "length (insertionSort lt xs) = length xs"
proof -
  have "length (foldl (\<lambda>acc x. insertLeft lt x acc) acc xs) = length acc + length xs" for acc
    by (induction xs arbitrary: acc) (simp_all add: mset_insertLeft flip: size_mset)
  then show ?thesis by (simp add: insertionSort_def)
qed

lemma allocateNodes_S1:
  "fst (allocateNodes S1_service ok_kms ok_signer 0 ''01'' \<lparr>RM_Node = 3, RM_Memory = 3 * GiB\<rparr>)
     = Inr S1_peers"
  by code_simp





section \<open>CreateDatabase: results\<close>

lemma CreateDatabase_success:
  assumes "CreateDatabase w sm req = Some (None, Some inst, sm', calls)"
  shows "\<exists>dbID peers nodes.
           generateDatabaseID (W_hash w) sm (CDR_NodeID req) = Some dbID
         \<and> fst (allocateNodes (W_service w) (W_kms w) (W_signer w) 0 dbID (CDR_ResourceMeta req))
             = Inr peers
         \<and> peersToNodes (Some peers) = Inr nodes
         \<and> SI_Peers inst = Some peers \<and> SI_DatabaseID inst = dbID"
  using assms
  by (auto simp: CreateDatabase_def Let_def ServiceMap_Set_def
      split: option.splits sum.splits prod.splits)


text \<open>
  Claim C4, with \<open>sort.Slice\<close> taken to keep the length of the slice it sorts. For
  every successful \<open>CreateDatabase\<close> the peers of the returned instance have exactly
  \<open>ResourceMeta.Node\<close> servers, server 0 has the leader role and is the peers' leader,
  every other server has the follower role, and the term is 1: the allocator is called
  with last term 0, for a database ID that is not in the service map.
\<close>

theorem CreateDatabase_peers_invariant:
  assumes len: "\<forall>lt xs. length (sortSlice (W_service w) lt xs) = length xs"
    and ok: "CreateDatabase w sm req = Some (None, Some inst, sm', calls)"
  shows "\<exists>p. SI_Peers inst = Some p
     \<and> length (Peers_Servers p) = unat (RM_Node (CDR_ResourceMeta req))
     \<and> (\<exists>s0. Peers_Servers p ! 0 = Some s0 \<and> Server_Role s0 = Leader
              \<and> Peers_Leader p = Some s0)
     \<and> (\<forall>i. 0 < i \<and> i < length (Peers_Servers p) \<longrightarrow>
           (\<exists>sv. Peers_Servers p ! i = Some sv \<and> Server_Role sv = Follower))
     \<and> Peers_Term p = 1
     \<and> SI_DatabaseID inst \<notin> dom sm"
proof -
  let ?rm = "CDR_ResourceMeta req"
  let ?n = "unat (RM_Node ?rm)"
  from CreateDatabase_success [OF ok] obtain dbID p nodes where
    gen: "generateDatabaseID (W_hash w) sm (CDR_NodeID req) = Some dbID"
    and alloc: "fst (allocateNodes (W_service w) (W_kms w) (W_signer w) 0 dbID ?rm) = Inr p"
    and nodes: "peersToNodes (Some p) = Inr nodes"
    and inst: "SI_Peers inst = Some p" "SI_DatabaseID inst = dbID"
    by blast
  from generateDatabaseID_from_sound [of "W_hash w" sm "CDR_NodeID req" 0 dbID] gen
  have fresh: "dbID \<notin> dom sm" by (auto simp: generateDatabaseID_def)
  from allocRounds_success [OF allocateNodes_rounds [OF alloc]] obtain rnodes accepted where
    enough: "?n \<le> length accepted"
    and built: "buildPeers (W_kms w) (W_signer w) (0 + 1) rnodes
                  (nodeAllocated (W_service w) ?n accepted) = Inr p"
    by blast
  from len enough have n: "length (nodeAllocated (W_service w) ?n accepted) = ?n"
    by (simp add: nodeAllocated_def)
  from buildPeers_result [OF built] n
  have trm: "Peers_Term p = 1"
    and size: "length (Peers_Servers p) = ?n"
    and lead: "\<exists>s0. Peers_Servers p ! 0 = Some s0 \<and> Server_Role s0 = Leader
                  \<and> Peers_Leader p = Some s0"
    and foll: "\<forall>i s. 0 < i \<and> i < length (Peers_Servers p) \<and> Peers_Servers p ! i = Some s
                  \<longrightarrow> Server_Role s = Follower"
    by simp_all
  from nodes have nonil: "None \<notin> set (Peers_Servers p)"
    by (simp add: peersToNodes_def split: if_splits)
  have "\<exists>sv. Peers_Servers p ! i = Some sv \<and> Server_Role sv = Follower"
    if "0 < i \<and> i < length (Peers_Servers p)" for i
  proof -
    from that have "Peers_Servers p ! i \<in> set (Peers_Servers p)" by simp
    with nonil obtain sv where "Peers_Servers p ! i = Some sv"
      by (cases "Peers_Servers p ! i") auto
    with foll that show ?thesis by blast
  qed
  with inst trm size lead fresh show ?thesis by blast
qed


lemma generateDatabaseID_S1: "generateDatabaseID toyHash Map.empty [1, 2] = Some ''01''"
  unfolding generateDatabaseID_def
  by (subst generateDatabaseID_from_step [OF ComputeBlockNonce_toy_0])
    (simp add: hashString_toy)

lemma CreateDatabase_S1:
  "CreateDatabase S1_world Map.empty S1_request =
     Some (None, Some S1_created, [''01'' \<mapsto> S1_created],
           map (\<lambda>n. (n, Some S1_initSvcReq)) [''n4G'', ''n6G'', ''n8G''])"
proof -
  have sel: "W_hash S1_world = toyHash" "W_service S1_world = S1_service"
    "W_kms S1_world = ok_kms" "W_signer S1_world = ok_signer" "W_net S1_world = ok_net"
    "W_store S1_world = ok_store" "W_now S1_world = 0"
    "CDR_Verify S1_request = None" "CDR_NodeID S1_request = [1, 2]"
    "CDR_ResourceMeta S1_request = \<lparr>RM_Node = 3, RM_Memory = 3 * GiB\<rparr>"
    by (simp_all add: S1_world_def S1_request_def)
  have gen: "generateGenesisBlock ok_kms ok_signer 0 ''01'' \<lparr>RM_Node = 3, RM_Memory = 3 * GiB\<rparr>
      = Inr S1_genesis"
    by (simp add: generateGenesisBlock_def ok_kms_def ok_signer_def S1_genesis_def)
  have nodes: "peersToNodes (Some S1_peers) = Inr [''n4G'', ''n6G'', ''n8G'']"
    by (simp add: peersToNodes_def S1_peers_def)
  have send: "batchSendSvcReq ok_net (Some S1_initSvcReq) rb [''n4G'', ''n6G'', ''n8G''] =
      (None, map (\<lambda>n. (n, Some S1_initSvcReq)) [''n4G'', ''n6G'', ''n8G''])" for rb
    using batchSendSvcReq_all_nil [of ok_net "Some S1_initSvcReq" rb "[''n4G'', ''n6G'', ''n8G'']"]
    by (simp add: ok_net_def)
  have key: "GetLocalPrivateKey ok_kms = Inr 200" by (simp add: ok_kms_def)
  have sign_init: "svcSign ok_signer 200
       \<lparr>US_Op = CreateDB,
        US_Instance = \<lparr>SI_DatabaseID = ''01'', SI_Peers = Some S1_peers,
                        SI_ResourceMeta = zeroResourceMeta,
                        SI_GenesisBlock = Some S1_genesis\<rparr>,
        US_Signee = None, US_Signature = None\<rparr> = (None, S1_initSvcReq)"
    by (simp add: ok_signer_def S1_initSvcReq_def)
  have sign_rollback: "svcSign ok_signer 200
       \<lparr>US_Op = DropDB,
        US_Instance = \<lparr>SI_DatabaseID = ''01'', SI_Peers = None,
                        SI_ResourceMeta = zeroResourceMeta, SI_GenesisBlock = None\<rparr>,
        US_Signee = None, US_Signature = None\<rparr> = (None, S1_initSvcReq\<lparr>US_Op := DropDB,
          US_Instance := \<lparr>SI_DatabaseID = ''01'', SI_Peers = None,
                        SI_ResourceMeta = zeroResourceMeta, SI_GenesisBlock = None\<rparr>\<rparr>)"
    by (simp add: ok_signer_def S1_initSvcReq_def)
  have resp: "respSign ok_signer 200 i = None" for i
    by (simp add: ok_signer_def)
  show ?thesis
    unfolding CreateDatabase_def
    apply (simp only: sel generateDatabaseID_S1 option.case)
    apply (simp only: allocateNodes_S1 gen key sum.case)
    apply (simp only: sign_init sign_rollback prod.case option.case nodes sum.case send)
    apply (simp add: ServiceMap_Set_def ok_store_def S1_created_def resp Let_def)
    done
qed

theorem CreateDatabase_peers_invariant_witness:
  "(\<forall>lt xs. length (sortSlice (W_service S1_world) lt xs) = length xs)
   \<and> CreateDatabase S1_world Map.empty S1_request =
       Some (None, Some S1_created, [''01'' \<mapsto> S1_created],
             map (\<lambda>n. (n, Some S1_initSvcReq)) [''n4G'', ''n6G'', ''n8G''])
   \<and> (\<exists>p. SI_Peers S1_created = Some p
     \<and> length (Peers_Servers p) = unat (RM_Node (CDR_ResourceMeta S1_request))
     \<and> (\<exists>s0. Peers_Servers p ! 0 = Some s0 \<and> Server_Role s0 = Leader
              \<and> Peers_Leader p = Some s0)
     \<and> (\<forall>i. 0 < i \<and> i < length (Peers_Servers p) \<longrightarrow>
           (\<exists>sv. Peers_Servers p ! i = Some sv \<and> Server_Role sv = Follower))
     \<and> Peers_Term p = 1
     \<and> SI_DatabaseID S1_created \<notin> dom Map.empty)"
proof -
  have len: "\<forall>lt xs. length (sortSlice (W_service S1_world) lt xs) = length xs"
    by (simp add: S1_world_def S1_service_def length_insertionSort)
  show ?thesis
    using len CreateDatabase_S1 CreateDatabase_peers_invariant [OF len CreateDatabase_S1]
    by blast
qed

end
